theory Spec2Isabelle
  imports Main
begin

section \<open>Wire values and the environment of a request\<close>

text \<open>
  Request and response bodies are JSON. The values that occur are null, booleans,
  integers, strings and lists; a request body (\<open>request.data\<close>) is a dictionary from
  keys to such values.
\<close>

datatype jv = JNull | JBool bool | JInt int | JStr string | JList "jv list"

type_synonym payload = "string \<rightharpoonup> jv"

type_synonym datetime = nat

record date =
  year :: nat
  month :: nat
  day :: nat

text \<open>
  The repository runs on Django and the REST framework. Their string parsers and
  printers, the password hasher and the clock are not code of the repository: they are
  the fields of an environment, and every theorem holds for every environment.
\<close>

record env =
  to_text :: "jv \<Rightarrow> string option"
    \<comment> \<open>\<open>CharField.to_internal_value\<close> with the character validators: \<open>None\<close> is a rejected value\<close>
  int_of_str :: "string \<Rightarrow> int option"
    \<comment> \<open>the coercion of a primary key given as a string\<close>
  bool_of_str :: "string \<Rightarrow> bool option"
    \<comment> \<open>the strings \<open>BooleanField\<close> reads as true or false\<close>
  parse_datetime :: "string \<Rightarrow> datetime option"
  parse_date :: "string \<Rightarrow> date option"
  valid_email :: "string \<Rightarrow> bool"
  repr_datetime :: "datetime \<Rightarrow> string"
  repr_date :: "date \<Rightarrow> string"
  make_password :: "string \<Rightarrow> string"
  normalize_email :: "string \<Rightarrow> string"
  normalize_username :: "string \<Rightarrow> string"
  now :: datetime
    \<comment> \<open>\<open>timezone.now()\<close> while the request or the job runs\<close>
  date_of :: "datetime \<Rightarrow> date"
    \<comment> \<open>the calendar date of a point in time\<close>
  EMAIL_HOST_USER :: string
    \<comment> \<open>\<open>config('EMAIL_HOST_USER')\<close>\<close>
  delivers :: "string \<Rightarrow> bool"
    \<comment> \<open>whether the mail server accepts a message for this recipient\<close>

section \<open>models.py\<close>

definition SUPERVISOR :: string where
  "SUPERVISOR = ''Supervisor''"

definition INTERN :: string where
  "INTERN = ''Intern''"

definition Types_choices :: "string list" where
  "Types_choices = [SUPERVISOR, INTERN]"

text \<open>
  \<open>UserProfile\<close> extends \<open>AbstractUser\<close>: it has the fields of that class, with \<open>email\<close>
  and \<open>username\<close> redeclared, and \<open>role\<close> added. It declares no birth date.
\<close>

record UserProfile =
  user_id :: int
  user_password :: string
  user_last_login :: "datetime option"
  user_is_superuser :: bool
  user_username :: string
  user_first_name :: string
  user_last_name :: string
  user_email :: string
  user_is_staff :: bool
  user_is_active :: bool
  user_date_joined :: datetime
  user_role :: string
  user_groups :: "int list"
  user_user_permissions :: "int list"

record Task =
  task_id :: int
  task_title :: string
  task_description :: string
  task_created_at :: datetime
  task_due_date :: "datetime option"
  task_is_completed :: bool
  task_assigned_to :: "int option"
  task_assigned_by :: "int option"
  task_birth_date :: "date option"

record Attendance =
  att_id :: int
  att_user :: int
  att_status :: string
  att_check_in_time :: datetime
  att_check_out_time :: "datetime option"

definition status_choices :: "string list" where
  "status_choices = [''P'', ''A'', ''L'']"

text \<open>
  The database: one table per model, the rows in insertion order, each table with the
  counter its primary keys are drawn from, and the keys of the \<open>auth\<close> groups and
  permissions a user can be related to.
\<close>

record store =
  UserProfile_objects :: "UserProfile list"
  Task_objects :: "Task list"
  Attendance_objects :: "Attendance list"
  UserProfile_seq :: int
  Task_seq :: int
  Attendance_seq :: int
  Group_pks :: "int list"
  Permission_pks :: "int list"

text \<open>
  \<open>Model.save()\<close> of a loaded row is an \<open>UPDATE ... WHERE id = pk\<close>; \<open>Model.delete()\<close> of
  a task or an attendance record removes the row (no model refers to either).
\<close>

definition Task_save :: "Task \<Rightarrow> store \<Rightarrow> store" where
  "Task_save t st =
     st\<lparr>Task_objects := map (\<lambda>x. if task_id x = task_id t then t else x) (Task_objects st)\<rparr>"

definition Task_delete :: "Task \<Rightarrow> store \<Rightarrow> store" where
  "Task_delete t st =
     st\<lparr>Task_objects := filter (\<lambda>x. task_id x \<noteq> task_id t) (Task_objects st)\<rparr>"

definition Attendance_save :: "Attendance \<Rightarrow> store \<Rightarrow> store" where
  "Attendance_save a st =
     st\<lparr>Attendance_objects :=
          map (\<lambda>x. if att_id x = att_id a then a else x) (Attendance_objects st)\<rparr>"

definition Attendance_delete :: "Attendance \<Rightarrow> store \<Rightarrow> store" where
  "Attendance_delete a st =
     st\<lparr>Attendance_objects := filter (\<lambda>x. att_id x \<noteq> att_id a) (Attendance_objects st)\<rparr>"

definition UserProfile_save :: "UserProfile \<Rightarrow> store \<Rightarrow> store" where
  "UserProfile_save u st =
     st\<lparr>UserProfile_objects :=
          map (\<lambda>x. if user_id x = user_id u then u else x) (UserProfile_objects st)\<rparr>"

text \<open>
  Deleting a user follows the \<open>on_delete\<close> declarations of the foreign keys to
  \<open>UserProfile\<close>: \<open>Task.assigned_to\<close> and \<open>Attendance.user\<close> are \<open>CASCADE\<close> (the rows
  are deleted), \<open>Task.assigned_by\<close> is \<open>SET_NULL\<close> (the field of the rows that stay is
  cleared).
\<close>

definition UserProfile_delete :: "UserProfile \<Rightarrow> store \<Rightarrow> store" where
  "UserProfile_delete u st =
     st\<lparr>UserProfile_objects := filter (\<lambda>x. user_id x \<noteq> user_id u) (UserProfile_objects st),
        Task_objects :=
          map (\<lambda>t. if task_assigned_by t = Some (user_id u) then t\<lparr>task_assigned_by := None\<rparr> else t)
            (filter (\<lambda>t. task_assigned_to t \<noteq> Some (user_id u)) (Task_objects st)),
        Attendance_objects := filter (\<lambda>a. att_user a \<noteq> user_id u) (Attendance_objects st)\<rparr>"

section \<open>serializers.py\<close>

subsection \<open>Fields\<close>

text \<open>
  What a serializer field makes of the value under its key: the field is skipped (no
  value given and none needed), the value is refused, or it is accepted.
\<close>

datatype 'a outcome = Skipped | Invalid | Valid 'a

fun is_invalid :: "'a outcome \<Rightarrow> bool" where
  "is_invalid Invalid = True"
| "is_invalid _ = False"

fun given :: "'a outcome \<Rightarrow> 'a option" where
  "given (Valid x) = Some x"
| "given _ = None"

text \<open>
  A missing key is skipped in a partial update, an error for a required field, and
  skipped otherwise (the model's default then applies on creation). \<open>null\<close> is an error
  unless the field allows it.
\<close>

definition run_field :: "bool \<Rightarrow> bool \<Rightarrow> (jv \<Rightarrow> 'a option) \<Rightarrow> jv option \<Rightarrow> 'a outcome" where
  "run_field partial required conv raw =
     (case raw of
        None \<Rightarrow> if partial then Skipped else if required then Invalid else Skipped
      | Some JNull \<Rightarrow> Invalid
      | Some v \<Rightarrow> (case conv v of None \<Rightarrow> Invalid | Some x \<Rightarrow> Valid x))"

definition run_field_null ::
  "bool \<Rightarrow> bool \<Rightarrow> (jv \<Rightarrow> 'a option) \<Rightarrow> jv option \<Rightarrow> 'a option outcome" where
  "run_field_null partial required conv raw =
     (case raw of
        None \<Rightarrow> if partial then Skipped else if required then Invalid else Skipped
      | Some JNull \<Rightarrow> Valid None
      | Some v \<Rightarrow> (case conv v of None \<Rightarrow> Invalid | Some x \<Rightarrow> Valid (Some x)))"

definition CharField :: "env \<Rightarrow> bool \<Rightarrow> nat \<Rightarrow> jv \<Rightarrow> string option" where
  "CharField e allow_blank max_length v =
     (case to_text e v of
        None \<Rightarrow> None
      | Some s \<Rightarrow>
          if s = [] then (if allow_blank then Some [] else None)
          else if max_length < length s then None
          else Some s)"

definition EmailField :: "env \<Rightarrow> nat \<Rightarrow> jv \<Rightarrow> string option" where
  "EmailField e max_length v =
     (case CharField e False max_length v of
        None \<Rightarrow> None
      | Some s \<Rightarrow> if valid_email e s then Some s else None)"

fun BooleanField :: "env \<Rightarrow> jv \<Rightarrow> bool option" where
  "BooleanField e (JBool b) = Some b"
| "BooleanField e (JInt n) = (if n = 1 then Some True else if n = 0 then Some False else None)"
| "BooleanField e (JStr s) = bool_of_str e s"
| "BooleanField e _ = None"

fun DateTimeField :: "env \<Rightarrow> jv \<Rightarrow> datetime option" where
  "DateTimeField e (JStr s) = parse_datetime e s"
| "DateTimeField e _ = None"

fun DateField :: "env \<Rightarrow> jv \<Rightarrow> date option" where
  "DateField e (JStr s) = parse_date e s"
| "DateField e _ = None"

text \<open>A choice field accepts the value whose \<open>str()\<close> is one of the choices: a string.\<close>

fun ChoiceField :: "string list \<Rightarrow> jv \<Rightarrow> string option" where
  "ChoiceField choices (JStr s) = (if s \<in> set choices then Some s else None)"
| "ChoiceField choices _ = None"

text \<open>
  A related field takes a primary key (never a boolean) and looks the row up: the key
  must be the key of a row of the related table. Before anything else it reads the empty
  string as \<open>null\<close> (\<open>RelatedField.run_validation\<close>), which a nullable key then accepts
  and any other refuses.
\<close>

fun related_data :: "jv option \<Rightarrow> jv option" where
  "related_data (Some (JStr s)) = (if s = [] then Some JNull else Some (JStr s))"
| "related_data raw = raw"

fun pk_value :: "env \<Rightarrow> jv \<Rightarrow> int option" where
  "pk_value e (JInt n) = Some n"
| "pk_value e (JStr s) = int_of_str e s"
| "pk_value e _ = None"

definition PrimaryKeyRelatedField :: "env \<Rightarrow> int list \<Rightarrow> jv \<Rightarrow> int option" where
  "PrimaryKeyRelatedField e pks v =
     (case pk_value e v of
        None \<Rightarrow> None
      | Some k \<Rightarrow> if k \<in> set pks then Some k else None)"

fun those_pks :: "int option list \<Rightarrow> int list option" where
  "those_pks [] = Some []"
| "those_pks (None # xs) = None"
| "those_pks (Some k # xs) = (case those_pks xs of None \<Rightarrow> None | Some ks \<Rightarrow> Some (k # ks))"

fun ManyRelatedField :: "env \<Rightarrow> int list \<Rightarrow> jv \<Rightarrow> int list option" where
  "ManyRelatedField e pks (JList vs) = those_pks (map (PrimaryKeyRelatedField e pks) vs)"
| "ManyRelatedField e pks _ = None"

definition user_pks :: "store \<Rightarrow> int list" where
  "user_pks st = map user_id (UserProfile_objects st)"

fun opt_repr :: "('a \<Rightarrow> jv) \<Rightarrow> 'a option \<Rightarrow> jv" where
  "opt_repr f None = JNull"
| "opt_repr f (Some x) = f x"

fun failed :: "(string \<times> bool) list \<Rightarrow> string list" where
  "failed [] = []"
| "failed ((name, bad) # fs) = (if bad then name # failed fs else failed fs)"

subsection \<open>TaskSerializer\<close>

text \<open>
  \<open>fields = '__all__'\<close>: \<open>id\<close> and \<open>created_at\<close> (\<open>auto_now_add\<close>) are read-only, \<open>title\<close>
  is required, the other fields have a default or may be blank or null. The validated
  data hold the fields that were given.
\<close>

record Task_validated =
  v_title :: "string option"
  v_description :: "string option"
  v_due_date :: "datetime option option"
  v_is_completed :: "bool option"
  v_assigned_to :: "int option option"
  v_assigned_by :: "int option option"
  v_birth_date :: "date option option"

definition TaskSerializer_is_valid ::
  "env \<Rightarrow> store \<Rightarrow> bool \<Rightarrow> payload \<Rightarrow> string list + Task_validated" where
  "TaskSerializer_is_valid e st partial d =
     (let title = run_field partial True (CharField e False 250) (d ''title'');
          description = run_field partial False (CharField e True 250) (d ''description'');
          due_date = run_field_null partial False (DateTimeField e) (d ''due_date'');
          is_completed = run_field partial False (BooleanField e) (d ''is_completed'');
          assigned_to =
            run_field_null partial False (PrimaryKeyRelatedField e (user_pks st))
              (related_data (d ''assigned_to''));
          assigned_by =
            run_field_null partial False (PrimaryKeyRelatedField e (user_pks st))
              (related_data (d ''assigned_by''));
          birth_date = run_field_null partial False (DateField e) (d ''birth_date'');
          errors = failed
            [(''title'', is_invalid title), (''description'', is_invalid description),
             (''due_date'', is_invalid due_date), (''is_completed'', is_invalid is_completed),
             (''assigned_to'', is_invalid assigned_to), (''assigned_by'', is_invalid assigned_by),
             (''birth_date'', is_invalid birth_date)]
      in if errors = [] then
           Inr \<lparr>v_title = given title, v_description = given description,
                v_due_date = given due_date, v_is_completed = given is_completed,
                v_assigned_to = given assigned_to, v_assigned_by = given assigned_by,
                v_birth_date = given birth_date\<rparr>
         else Inl errors)"

fun or_else :: "'a option \<Rightarrow> 'a \<Rightarrow> 'a" where
  "or_else None d = d"
| "or_else (Some x) d = x"

text \<open>\<open>save()\<close> without an instance: a new row, with the model's defaults for what was not given.\<close>

definition TaskSerializer_create :: "env \<Rightarrow> Task_validated \<Rightarrow> store \<Rightarrow> Task \<times> store" where
  "TaskSerializer_create e v st =
     (let t = \<lparr>task_id = Task_seq st + 1,
               task_title = or_else (v_title v) [],
               task_description = or_else (v_description v) [],
               task_created_at = now e,
               task_due_date = or_else (v_due_date v) None,
               task_is_completed = or_else (v_is_completed v) False,
               task_assigned_to = or_else (v_assigned_to v) None,
               task_assigned_by = or_else (v_assigned_by v) None,
               task_birth_date = or_else (v_birth_date v) None\<rparr>
      in (t, st\<lparr>Task_objects := Task_objects st @ [t], Task_seq := Task_seq st + 1\<rparr>))"

text \<open>\<open>save()\<close> with an instance: the given fields are set on it and the row is written.\<close>

definition TaskSerializer_update :: "Task \<Rightarrow> Task_validated \<Rightarrow> store \<Rightarrow> Task \<times> store" where
  "TaskSerializer_update t v st =
     (let t' = t\<lparr>task_title := or_else (v_title v) (task_title t),
                 task_description := or_else (v_description v) (task_description t),
                 task_due_date := or_else (v_due_date v) (task_due_date t),
                 task_is_completed := or_else (v_is_completed v) (task_is_completed t),
                 task_assigned_to := or_else (v_assigned_to v) (task_assigned_to t),
                 task_assigned_by := or_else (v_assigned_by v) (task_assigned_by t),
                 task_birth_date := or_else (v_birth_date v) (task_birth_date t)\<rparr>
      in (t', Task_save t' st))"

definition TaskSerializer_data :: "env \<Rightarrow> Task \<Rightarrow> (string \<times> jv) list" where
  "TaskSerializer_data e t =
     [(''id'', JInt (task_id t)),
      (''title'', JStr (task_title t)),
      (''description'', JStr (task_description t)),
      (''created_at'', JStr (repr_datetime e (task_created_at t))),
      (''due_date'', opt_repr (\<lambda>x. JStr (repr_datetime e x)) (task_due_date t)),
      (''is_completed'', JBool (task_is_completed t)),
      (''assigned_to'', opt_repr JInt (task_assigned_to t)),
      (''assigned_by'', opt_repr JInt (task_assigned_by t)),
      (''birth_date'', opt_repr (\<lambda>x. JStr (repr_date e x)) (task_birth_date t))]"

subsection \<open>AttendanceSerializer\<close>

text \<open>
  \<open>id\<close> and \<open>check_in_time\<close> (\<open>auto_now_add\<close>) are read-only, \<open>user\<close> is required and
  not null, \<open>status\<close> has the default \<open>'A'\<close>, \<open>check_out_time\<close> may be null.
\<close>

record Attendance_validated =
  v_user :: "int option"
  v_status :: "string option"
  v_check_out_time :: "datetime option option"

definition AttendanceSerializer_is_valid ::
  "env \<Rightarrow> store \<Rightarrow> bool \<Rightarrow> payload \<Rightarrow> string list + Attendance_validated" where
  "AttendanceSerializer_is_valid e st partial d =
     (let usr = run_field partial True (PrimaryKeyRelatedField e (user_pks st))
                  (related_data (d ''user''));
          status = run_field partial False (ChoiceField status_choices) (d ''status'');
          check_out_time = run_field_null partial False (DateTimeField e) (d ''check_out_time'');
          errors = failed
            [(''user'', is_invalid usr), (''status'', is_invalid status),
             (''check_out_time'', is_invalid check_out_time)]
      in if errors = [] then
           Inr \<lparr>v_user = given usr, v_status = given status,
                v_check_out_time = given check_out_time\<rparr>
         else Inl errors)"

text \<open>A row without a user violates the column's \<open>NOT NULL\<close>: the insert raises.\<close>

definition AttendanceSerializer_create ::
  "env \<Rightarrow> Attendance_validated \<Rightarrow> store \<Rightarrow> string + Attendance \<times> store" where
  "AttendanceSerializer_create e v st =
     (case v_user v of
        None \<Rightarrow> Inl ''IntegrityError''
      | Some uid \<Rightarrow>
          let a = \<lparr>att_id = Attendance_seq st + 1,
                    att_user = uid,
                    att_status = or_else (v_status v) ''A'',
                    att_check_in_time = now e,
                    att_check_out_time = or_else (v_check_out_time v) None\<rparr>
          in Inr (a, st\<lparr>Attendance_objects := Attendance_objects st @ [a],
                        Attendance_seq := Attendance_seq st + 1\<rparr>))"

definition AttendanceSerializer_update ::
  "Attendance \<Rightarrow> Attendance_validated \<Rightarrow> store \<Rightarrow> Attendance \<times> store" where
  "AttendanceSerializer_update a v st =
     (let a' = a\<lparr>att_user := or_else (v_user v) (att_user a),
                 att_status := or_else (v_status v) (att_status a),
                 att_check_out_time := or_else (v_check_out_time v) (att_check_out_time a)\<rparr>
      in (a', Attendance_save a' st))"

definition AttendanceSerializer_data :: "env \<Rightarrow> Attendance \<Rightarrow> (string \<times> jv) list" where
  "AttendanceSerializer_data e a =
     [(''id'', JInt (att_id a)),
      (''user'', JInt (att_user a)),
      (''status'', JStr (att_status a)),
      (''check_in_time'', JStr (repr_datetime e (att_check_in_time a))),
      (''check_out_time'', opt_repr (\<lambda>x. JStr (repr_datetime e x)) (att_check_out_time a))]"

subsection \<open>UserProfileSerializer\<close>

text \<open>
  \<open>fields = '__all__'\<close> with \<open>extra_kwargs = {'password': {'write_only': True}}\<close>: every
  field of the model is read from a payload (but \<open>id\<close>), and every field but the
  write-only ones is written to a response.
\<close>

definition UserProfile_fields :: "env \<Rightarrow> UserProfile \<Rightarrow> (string \<times> jv) list" where
  "UserProfile_fields e u =
     [(''id'', JInt (user_id u)),
      (''password'', JStr (user_password u)),
      (''last_login'', opt_repr (\<lambda>x. JStr (repr_datetime e x)) (user_last_login u)),
      (''is_superuser'', JBool (user_is_superuser u)),
      (''username'', JStr (user_username u)),
      (''first_name'', JStr (user_first_name u)),
      (''last_name'', JStr (user_last_name u)),
      (''email'', JStr (user_email u)),
      (''is_staff'', JBool (user_is_staff u)),
      (''is_active'', JBool (user_is_active u)),
      (''date_joined'', JStr (repr_datetime e (user_date_joined u))),
      (''role'', JStr (user_role u)),
      (''groups'', JList (map JInt (user_groups u))),
      (''user_permissions'', JList (map JInt (user_user_permissions u)))]"

definition write_only :: "string list" where
  "write_only = [''password'']"

definition UserProfileSerializer_data :: "env \<Rightarrow> UserProfile \<Rightarrow> (string \<times> jv) list" where
  "UserProfileSerializer_data e u =
     filter (\<lambda>kv. fst kv \<notin> set write_only) (UserProfile_fields e u)"

record UserProfile_validated =
  v_password :: "string option"
  v_last_login :: "datetime option option"
  v_is_superuser :: "bool option"
  v_username :: "string option"
  v_first_name :: "string option"
  v_last_name :: "string option"
  v_email :: "string option"
  v_is_staff :: "bool option"
  v_is_active :: "bool option"
  v_date_joined :: "datetime option"
  v_role :: "string option"
  v_groups :: "int list option"
  v_user_permissions :: "int list option"

text \<open>
  \<open>username\<close> and \<open>email\<close> are unique: the value must not be that of another row (of any
  row, when a new one is created).
\<close>

fun others :: "UserProfile option \<Rightarrow> store \<Rightarrow> UserProfile list" where
  "others None st = UserProfile_objects st"
| "others (Some u) st = filter (\<lambda>x. user_id x \<noteq> user_id u) (UserProfile_objects st)"

definition unique :: "string list \<Rightarrow> (jv \<Rightarrow> string option) \<Rightarrow> jv \<Rightarrow> string option" where
  "unique taken conv v =
     (case conv v of
        None \<Rightarrow> None
      | Some s \<Rightarrow> if s \<in> set taken then None else Some s)"

definition UserProfileSerializer_is_valid ::
  "env \<Rightarrow> store \<Rightarrow> UserProfile option \<Rightarrow> bool \<Rightarrow> payload \<Rightarrow> string list + UserProfile_validated" where
  "UserProfileSerializer_is_valid e st instance partial d =
     (let password = run_field partial True (CharField e False 128) (d ''password'');
          last_login = run_field_null partial False (DateTimeField e) (d ''last_login'');
          is_superuser = run_field partial False (BooleanField e) (d ''is_superuser'');
          username = run_field partial True
            (unique (map user_username (others instance st)) (CharField e False 20)) (d ''username'');
          first_name = run_field partial False (CharField e True 150) (d ''first_name'');
          last_name = run_field partial False (CharField e True 150) (d ''last_name'');
          email = run_field partial True
            (unique (map user_email (others instance st)) (EmailField e 50)) (d ''email'');
          is_staff = run_field partial False (BooleanField e) (d ''is_staff'');
          is_active = run_field partial False (BooleanField e) (d ''is_active'');
          date_joined = run_field partial False (DateTimeField e) (d ''date_joined'');
          role = run_field partial False (ChoiceField Types_choices) (d ''role'');
          groups = run_field partial False (ManyRelatedField e (Group_pks st)) (d ''groups'');
          user_permissions =
            run_field partial False (ManyRelatedField e (Permission_pks st)) (d ''user_permissions'');
          errors = failed
            [(''password'', is_invalid password), (''last_login'', is_invalid last_login),
             (''is_superuser'', is_invalid is_superuser), (''username'', is_invalid username),
             (''first_name'', is_invalid first_name), (''last_name'', is_invalid last_name),
             (''email'', is_invalid email), (''is_staff'', is_invalid is_staff),
             (''is_active'', is_invalid is_active), (''date_joined'', is_invalid date_joined),
             (''role'', is_invalid role), (''groups'', is_invalid groups),
             (''user_permissions'', is_invalid user_permissions)]
      in if errors = [] then
           Inr \<lparr>v_password = given password, v_last_login = given last_login,
                v_is_superuser = given is_superuser, v_username = given username,
                v_first_name = given first_name, v_last_name = given last_name,
                v_email = given email, v_is_staff = given is_staff,
                v_is_active = given is_active, v_date_joined = given date_joined,
                v_role = given role, v_groups = given groups,
                v_user_permissions = given user_permissions\<rparr>
         else Inl errors)"

text \<open>
  \<open>create\<close> is overridden: it passes \<open>username\<close>, \<open>email\<close>, \<open>password\<close> and \<open>role\<close> to
  \<open>create_user\<close>, reading each with \<open>validated_data[...]\<close> (a \<open>KeyError\<close> when the key is
  missing). \<open>create_user\<close> refuses an empty username, normalises the name and the
  address, hashes the password and inserts the row; the unique columns refuse a
  duplicate.
\<close>

definition UserProfileSerializer_create ::
  "env \<Rightarrow> UserProfile_validated \<Rightarrow> store \<Rightarrow> string + UserProfile \<times> store" where
  "UserProfileSerializer_create e v st =
     (case (v_username v, v_email v, v_password v, v_role v) of
        (Some username, Some email, Some password, Some role) \<Rightarrow>
          if username = [] then Inl ''ValueError''
          else
            let u = \<lparr>user_id = UserProfile_seq st + 1,
                      user_password = make_password e password,
                      user_last_login = None,
                      user_is_superuser = False,
                      user_username = normalize_username e username,
                      user_first_name = [],
                      user_last_name = [],
                      user_email = normalize_email e email,
                      user_is_staff = False,
                      user_is_active = True,
                      user_date_joined = now e,
                      user_role = role,
                      user_groups = [],
                      user_user_permissions = []\<rparr>
            in if user_username u \<in> set (map user_username (UserProfile_objects st))
                  \<or> user_email u \<in> set (map user_email (UserProfile_objects st))
               then Inl ''IntegrityError''
               else Inr (u, st\<lparr>UserProfile_objects := UserProfile_objects st @ [u],
                                UserProfile_seq := UserProfile_seq st + 1\<rparr>)
      | _ \<Rightarrow> Inl ''KeyError'')"

definition UserProfileSerializer_update ::
  "UserProfile \<Rightarrow> UserProfile_validated \<Rightarrow> store \<Rightarrow> UserProfile \<times> store" where
  "UserProfileSerializer_update u v st =
     (let u' = u\<lparr>user_password := or_else (v_password v) (user_password u),
                 user_last_login := or_else (v_last_login v) (user_last_login u),
                 user_is_superuser := or_else (v_is_superuser v) (user_is_superuser u),
                 user_username := or_else (v_username v) (user_username u),
                 user_first_name := or_else (v_first_name v) (user_first_name u),
                 user_last_name := or_else (v_last_name v) (user_last_name u),
                 user_email := or_else (v_email v) (user_email u),
                 user_is_staff := or_else (v_is_staff v) (user_is_staff u),
                 user_is_active := or_else (v_is_active v) (user_is_active u),
                 user_date_joined := or_else (v_date_joined v) (user_date_joined u),
                 user_role := or_else (v_role v) (user_role u),
                 user_groups := or_else (v_groups v) (user_groups u),
                 user_user_permissions :=
                   or_else (v_user_permissions v) (user_user_permissions u)\<rparr>
      in (u', UserProfile_save u' st))"

section \<open>views.py\<close>

text \<open>
  A handler runs for an authenticated user (\<open>permission_classes = [IsAuthenticated]\<close>):
  \<open>request.user\<close> is a row of the user table. It returns a response and leaves the
  database in a new state.
\<close>

record request =
  user :: UserProfile
  data :: payload

datatype body =
    Error string
  | Message string
  | Data "(string \<times> jv) list"
  | DataList "(string \<times> jv) list list"
  | Errors "string list"

datatype response = Response body nat | Raised string

abbreviation HTTP_200_OK :: nat where "HTTP_200_OK \<equiv> 200"
abbreviation HTTP_201_CREATED :: nat where "HTTP_201_CREATED \<equiv> 201"
abbreviation HTTP_400_BAD_REQUEST :: nat where "HTTP_400_BAD_REQUEST \<equiv> 400"
abbreviation HTTP_401_UNAUTHORIZED :: nat where "HTTP_401_UNAUTHORIZED \<equiv> 401"
abbreviation HTTP_404_NOT_FOUND :: nat where "HTTP_404_NOT_FOUND \<equiv> 404"

fun status_code :: "response \<Rightarrow> nat option" where
  "status_code (Response b s) = Some s"
| "status_code (Raised x) = None"

text \<open>\<open>if pk:\<close> is false for a missing key and for the key \<open>0\<close>.\<close>

fun truthy :: "int option \<Rightarrow> bool" where
  "truthy None = False"
| "truthy (Some k) = (k \<noteq> 0)"

subsection \<open>UserProfileView\<close>

definition UserProfileView_get_object :: "store \<Rightarrow> int \<Rightarrow> UserProfile option" where
  "UserProfileView_get_object st pk = find (\<lambda>u. user_id u = pk) (UserProfile_objects st)"

definition UserProfileView_get ::
  "env \<Rightarrow> store \<Rightarrow> request \<Rightarrow> int option \<Rightarrow> response \<times> store" where
  "UserProfileView_get e st request pk =
     (if truthy pk then
        case UserProfileView_get_object st (or_else pk 0) of
          None \<Rightarrow> (Response (Error ''UserProfile not found.'') HTTP_404_NOT_FOUND, st)
        | Some profile \<Rightarrow> (Response (Data (UserProfileSerializer_data e profile)) HTTP_200_OK, st)
      else
        (Response (DataList (map (UserProfileSerializer_data e) (UserProfile_objects st)))
           HTTP_200_OK, st))"

definition UserProfileView_post :: "env \<Rightarrow> store \<Rightarrow> request \<Rightarrow> response \<times> store" where
  "UserProfileView_post e st request =
     (if user_role (user request) \<noteq> SUPERVISOR then
        (Response (Error ''Only supervisors can create profiles.'') HTTP_401_UNAUTHORIZED, st)
      else
        case UserProfileSerializer_is_valid e st None False (data request) of
          Inr v \<Rightarrow>
            (case UserProfileSerializer_create e v st of
               Inr (u, st') \<Rightarrow> (Response (Data (UserProfileSerializer_data e u)) HTTP_201_CREATED, st')
             | Inl x \<Rightarrow> (Raised x, st))
        | Inl errors \<Rightarrow> (Response (Errors errors) HTTP_400_BAD_REQUEST, st))"

definition UserProfileView_put ::
  "env \<Rightarrow> store \<Rightarrow> request \<Rightarrow> int \<Rightarrow> response \<times> store" where
  "UserProfileView_put e st request pk =
     (case UserProfileView_get_object st pk of
        None \<Rightarrow> (Response (Error ''UserProfile not found.'') HTTP_404_NOT_FOUND, st)
      | Some profile \<Rightarrow>
          if user_role (user request) \<noteq> SUPERVISOR then
            (Response (Error ''Only supervisors can update profiles.'') HTTP_401_UNAUTHORIZED, st)
          else
            (case UserProfileSerializer_is_valid e st (Some profile) False (data request) of
              Inr v \<Rightarrow>
                (case UserProfileSerializer_update profile v st of
                   (u, st') \<Rightarrow> (Response (Data (UserProfileSerializer_data e u)) HTTP_200_OK, st'))
            | Inl errors \<Rightarrow> (Response (Errors errors) HTTP_400_BAD_REQUEST, st)))"

definition UserProfileView_delete :: "store \<Rightarrow> request \<Rightarrow> int \<Rightarrow> response \<times> store" where
  "UserProfileView_delete st request pk =
     (case UserProfileView_get_object st pk of
        None \<Rightarrow> (Response (Error ''UserProfile not found.'') HTTP_404_NOT_FOUND, st)
      | Some profile \<Rightarrow>
          if user_role (user request) \<noteq> SUPERVISOR then
            (Response (Error ''Only supervisors can delete profiles.'') HTTP_401_UNAUTHORIZED, st)
          else
            (Response (Message ''UserProfile deleted.'') HTTP_200_OK, UserProfile_delete profile st))"

subsection \<open>TaskView\<close>

definition TaskView_get_object :: "store \<Rightarrow> int \<Rightarrow> Task option" where
  "TaskView_get_object st pk = find (\<lambda>t. task_id t = pk) (Task_objects st)"

definition TaskView_get :: "env \<Rightarrow> store \<Rightarrow> request \<Rightarrow> int option \<Rightarrow> response \<times> store" where
  "TaskView_get e st request pk =
     (if truthy pk then
        case TaskView_get_object st (or_else pk 0) of
          None \<Rightarrow> (Response (Error ''Task not found.'') HTTP_404_NOT_FOUND, st)
        | Some task \<Rightarrow> (Response (Data (TaskSerializer_data e task)) HTTP_200_OK, st)
      else
        (Response (DataList (map (TaskSerializer_data e) (Task_objects st))) HTTP_200_OK, st))"

definition TaskView_post :: "env \<Rightarrow> store \<Rightarrow> request \<Rightarrow> response \<times> store" where
  "TaskView_post e st request =
     (if user_role (user request) \<noteq> SUPERVISOR then
        (Response (Error ''Only supervisors can create tasks.'') HTTP_401_UNAUTHORIZED, st)
      else
        case TaskSerializer_is_valid e st False (data request) of
          Inr v \<Rightarrow>
            (case TaskSerializer_create e v st of
               (t, st') \<Rightarrow> (Response (Data (TaskSerializer_data e t)) HTTP_201_CREATED, st'))
        | Inl errors \<Rightarrow> (Response (Errors errors) HTTP_400_BAD_REQUEST, st))"

text \<open>
  \<open>task.assigned_to != request.user\<close> compares model instances: they are equal when both
  are rows with the same primary key, and \<open>None\<close> differs from every user.
\<close>

definition TaskView_put :: "env \<Rightarrow> store \<Rightarrow> request \<Rightarrow> int \<Rightarrow> response \<times> store" where
  "TaskView_put e st request pk =
     (case TaskView_get_object st pk of
        None \<Rightarrow> (Response (Error ''Task not found.'') HTTP_404_NOT_FOUND, st)
      | Some task \<Rightarrow>
          if user_role (user request) \<noteq> SUPERVISOR
             \<and> task_assigned_to task \<noteq> Some (user_id (user request)) then
            (Response (Error ''Only supervisors or the assigned intern can update tasks.'')
               HTTP_401_UNAUTHORIZED, st)
          else
            (case TaskSerializer_is_valid e st False (data request) of
              Inr v \<Rightarrow>
                (case TaskSerializer_update task v st of
                   (t, st') \<Rightarrow> (Response (Data (TaskSerializer_data e t)) HTTP_200_OK, st'))
            | Inl errors \<Rightarrow> (Response (Errors errors) HTTP_400_BAD_REQUEST, st)))"

definition TaskView_delete :: "store \<Rightarrow> request \<Rightarrow> int \<Rightarrow> response \<times> store" where
  "TaskView_delete st request pk =
     (case TaskView_get_object st pk of
        None \<Rightarrow> (Response (Error ''Task not found.'') HTTP_404_NOT_FOUND, st)
      | Some task \<Rightarrow>
          if user_role (user request) \<noteq> SUPERVISOR then
            (Response (Error ''Only supervisors can delete tasks.'') HTTP_401_UNAUTHORIZED, st)
          else (Response (Message ''Task deleted.'') HTTP_200_OK, Task_delete task st))"

subsection \<open>AttendanceView\<close>

definition AttendanceView_get_object :: "store \<Rightarrow> int \<Rightarrow> Attendance option" where
  "AttendanceView_get_object st pk = find (\<lambda>a. att_id a = pk) (Attendance_objects st)"

definition AttendanceView_get ::
  "env \<Rightarrow> store \<Rightarrow> request \<Rightarrow> int option \<Rightarrow> response \<times> store" where
  "AttendanceView_get e st request pk =
     (if truthy pk then
        case AttendanceView_get_object st (or_else pk 0) of
          None \<Rightarrow> (Response (Error ''Attendance record not found.'') HTTP_404_NOT_FOUND, st)
        | Some attendance \<Rightarrow>
            (Response (Data (AttendanceSerializer_data e attendance)) HTTP_200_OK, st)
      else
        (Response (DataList (map (AttendanceSerializer_data e) (Attendance_objects st)))
           HTTP_200_OK, st))"

definition AttendanceView_post :: "env \<Rightarrow> store \<Rightarrow> request \<Rightarrow> response \<times> store" where
  "AttendanceView_post e st request =
     (if user_role (user request) \<noteq> SUPERVISOR then
        (Response (Error ''Only supervisors can create attendance records.'')
           HTTP_401_UNAUTHORIZED, st)
      else
        case AttendanceSerializer_is_valid e st False (data request) of
          Inr v \<Rightarrow>
            (case AttendanceSerializer_create e v st of
               Inr (a, st') \<Rightarrow> (Response (Data (AttendanceSerializer_data e a)) HTTP_201_CREATED, st')
             | Inl x \<Rightarrow> (Raised x, st))
        | Inl errors \<Rightarrow> (Response (Errors errors) HTTP_400_BAD_REQUEST, st))"

definition AttendanceView_put ::
  "env \<Rightarrow> store \<Rightarrow> request \<Rightarrow> int \<Rightarrow> response \<times> store" where
  "AttendanceView_put e st request pk =
     (case AttendanceView_get_object st pk of
        None \<Rightarrow> (Response (Error ''Attendance record not found.'') HTTP_404_NOT_FOUND, st)
      | Some attendance \<Rightarrow>
          if user_role (user request) \<noteq> SUPERVISOR
             \<and> att_user attendance \<noteq> user_id (user request) then
            (Response (Error ''Only supervisors or the user can update attendance.'')
               HTTP_401_UNAUTHORIZED, st)
          else
            (case AttendanceSerializer_is_valid e st False (data request) of
              Inr v \<Rightarrow>
                (case AttendanceSerializer_update attendance v st of
                   (a, st') \<Rightarrow> (Response (Data (AttendanceSerializer_data e a)) HTTP_200_OK, st'))
            | Inl errors \<Rightarrow> (Response (Errors errors) HTTP_400_BAD_REQUEST, st)))"

definition AttendanceView_delete :: "store \<Rightarrow> request \<Rightarrow> int \<Rightarrow> response \<times> store" where
  "AttendanceView_delete st request pk =
     (case AttendanceView_get_object st pk of
        None \<Rightarrow> (Response (Error ''Attendance record not found.'') HTTP_404_NOT_FOUND, st)
      | Some attendance \<Rightarrow>
          if user_role (user request) \<noteq> SUPERVISOR then
            (Response (Error ''Only supervisors can delete attendance records.'')
               HTTP_401_UNAUTHORIZED, st)
          else
            (Response (Message ''Attendance record deleted.'') HTTP_200_OK,
             Attendance_delete attendance st))"

subsection \<open>MarkAttendanceView\<close>

text \<open>
  The serializer is given a dictionary the view builds: the caller's key under \<open>user\<close>
  and, under \<open>status\<close>, \<open>request.data.get('status', 'P')\<close>.
\<close>

definition MarkAttendanceView_post :: "env \<Rightarrow> store \<Rightarrow> request \<Rightarrow> response \<times> store" where
  "MarkAttendanceView_post e st request =
     (if user_role (user request) \<noteq> INTERN then
        (Response (Error ''Only interns can mark attendance.'') HTTP_401_UNAUTHORIZED, st)
      else
        let d = [''user'' \<mapsto> JInt (user_id (user request)),
                 ''status'' \<mapsto> or_else (data request ''status'') (JStr ''P'')]
        in case AttendanceSerializer_is_valid e st False d of
             Inr v \<Rightarrow>
               (case AttendanceSerializer_create e v st of
                  Inr (a, st') \<Rightarrow>
                    (Response (Data (AttendanceSerializer_data e a)) HTTP_201_CREATED, st')
                | Inl x \<Rightarrow> (Raised x, st))
           | Inl errors \<Rightarrow> (Response (Errors errors) HTTP_400_BAD_REQUEST, st))"

subsection \<open>MarkTaskCompleteView\<close>

definition MarkTaskCompleteView_patch ::
  "env \<Rightarrow> store \<Rightarrow> request \<Rightarrow> int \<Rightarrow> response \<times> store" where
  "MarkTaskCompleteView_patch e st request pk =
     (if user_role (user request) \<noteq> INTERN then
        (Response (Error ''Only interns can mark tasks as complete.'') HTTP_401_UNAUTHORIZED, st)
      else
        case find (\<lambda>t. task_id t = pk \<and> task_assigned_to t = Some (user_id (user request)))
               (Task_objects st) of
          None \<Rightarrow>
            (Response (Error ''Task not found or not assigned to you.'') HTTP_404_NOT_FOUND, st)
        | Some task \<Rightarrow>
            (case TaskSerializer_is_valid e st True [''is_completed'' \<mapsto> JBool True] of
               Inr v \<Rightarrow>
                 (Response (Message ''Task marked as complete.'') HTTP_200_OK,
                  snd (TaskSerializer_update task v st))
             | Inl errors \<Rightarrow> (Response (Errors errors) HTTP_400_BAD_REQUEST, st)))"

subsection \<open>AssignTaskView\<close>

definition AssignTaskView_post :: "env \<Rightarrow> store \<Rightarrow> request \<Rightarrow> response \<times> store" where
  "AssignTaskView_post e st request =
     (if user_role (user request) \<noteq> SUPERVISOR then
        (Response (Error ''Only supervisors can assign tasks.'') HTTP_401_UNAUTHORIZED, st)
      else
        let d = (data request)(''assigned_by'' \<mapsto> JInt (user_id (user request)))
        in case TaskSerializer_is_valid e st False d of
             Inr v \<Rightarrow>
               (case TaskSerializer_create e v st of
                  (t, st') \<Rightarrow> (Response (Data (TaskSerializer_data e t)) HTTP_201_CREATED, st'))
           | Inl errors \<Rightarrow> (Response (Errors errors) HTTP_400_BAD_REQUEST, st))"

section \<open>tasks.py\<close>

text \<open>
  A queryset filter names its fields by keyword. The two jobs compare a column of the
  user table (\<open>is_active=True\<close>) and the day or month of a date column
  (\<open>birth_date__day=...\<close>), and these are the lookups modelled. The keywords are resolved
  against the columns of the model when the filter is built: one that names no column of
  the model, or takes the day or month of a column that holds no date, raises
  \<open>FieldError\<close>, whatever the rows are.
\<close>

definition UserProfile_field_names :: "string list" where
  "UserProfile_field_names =
     [''id'', ''password'', ''last_login'', ''is_superuser'', ''username'', ''first_name'',
      ''last_name'', ''email'', ''is_staff'', ''is_active'', ''date_joined'', ''role'',
      ''groups'', ''user_permissions'']"

definition UserProfile_dates :: "env \<Rightarrow> UserProfile \<Rightarrow> (string \<times> date option) list" where
  "UserProfile_dates e u =
     [(''last_login'', map_option (date_of e) (user_last_login u)),
      (''date_joined'', Some (date_of e (user_date_joined u)))]"

definition date_field_names :: "string list" where
  "date_field_names = [''last_login'', ''date_joined'']"

fun resolves :: "string list \<Rightarrow> bool" where
  "resolves [f] = (f \<in> set UserProfile_field_names)"
| "resolves [f, part] = (f \<in> set date_field_names \<and> part \<in> set [''day'', ''month''])"
| "resolves _ = False"

fun matches :: "env \<Rightarrow> UserProfile \<Rightarrow> string list \<times> jv \<Rightarrow> bool" where
  "matches e u ([f], v) = (map_of (UserProfile_fields e u) f = Some v)"
| "matches e u ([f, part], v) =
     (case map_of (UserProfile_dates e u) f of
        Some (Some d) \<Rightarrow> v = JInt (int (if part = ''day'' then day d else month d))
      | _ \<Rightarrow> False)"
| "matches e u _ = False"

definition UserProfile_filter ::
  "env \<Rightarrow> (string list \<times> jv) list \<Rightarrow> store \<Rightarrow> string + UserProfile list" where
  "UserProfile_filter e lookups st =
     (if list_all (\<lambda>l. resolves (fst l)) lookups then
        Inr (filter (\<lambda>u. list_all (matches e u) lookups) (UserProfile_objects st))
      else Inl ''FieldError'')"

definition newline :: string where
  "newline = [CHR 0x0A]"

record mail =
  subject :: string
  message :: string
  from_email :: string
  recipient_list :: "string list"

text \<open>
  \<open>send_mail(..., fail_silently=False)\<close> in a loop: a message the server refuses raises,
  and the messages after it are not sent. The result is the messages sent, and the
  exception if one was raised.
\<close>

fun send_each :: "env \<Rightarrow> mail list \<Rightarrow> mail list \<times> string option" where
  "send_each e [] = ([], None)"
| "send_each e (m # ms) =
     (if list_all (delivers e) (recipient_list m) then
        (case send_each e ms of (sent, x) \<Rightarrow> (m # sent, x))
      else ([], Some ''SMTPException''))"

definition send_happy_birthday_emails :: "env \<Rightarrow> store \<Rightarrow> mail list \<times> string option" where
  "send_happy_birthday_emails e st =
     (let today = date_of e (now e) in
      case UserProfile_filter e
             [([''birth_date'', ''day''], JInt (int (day today))),
              ([''birth_date'', ''month''], JInt (int (month today))),
              ([''is_active''], JBool True)] st of
        Inl x \<Rightarrow> ([], Some x)
      | Inr users_with_birthday \<Rightarrow>
          send_each e
            (map (\<lambda>u. \<lparr>subject = ''Happy Birthday!'',
                       message = ''Dear '' @ user_username u @ '','' @ newline @ newline
                         @ ''Wishing you a very Happy Birthday from the team! Have a fantastic day!''
                         @ newline @ newline @ ''Best regards,'' @ newline @ ''Your App Team'',
                       from_email = EMAIL_HOST_USER e,
                       recipient_list = [user_email u]\<rparr>)
               users_with_birthday))"

definition send_good_morning_emails :: "env \<Rightarrow> store \<Rightarrow> mail list \<times> string option" where
  "send_good_morning_emails e st =
     (case UserProfile_filter e [([''is_active''], JBool True)] st of
        Inl x \<Rightarrow> ([], Some x)
      | Inr users \<Rightarrow>
          send_each e
            (map (\<lambda>u. \<lparr>subject = ''Good Morning!'',
                       message = ''Good Morning, '' @ user_username u @ ''!'' @ newline @ newline
                         @ ''We hope you have a great day ahead!''
                         @ newline @ newline @ ''Best regards,'' @ newline @ ''Your App Team'',
                       from_email = EMAIL_HOST_USER e,
                       recipient_list = [user_email u]\<rparr>)
               users))"

section \<open>Sample data\<close>

text \<open>
  An environment, three users (a supervisor and two interns) and a small database, for
  the concrete instances of the theorems below.
\<close>

definition sample_env :: env where
  "sample_env =
     \<lparr>to_text = (\<lambda>v. case v of JStr s \<Rightarrow> Some s | _ \<Rightarrow> None),
      int_of_str = (\<lambda>s. None),
      bool_of_str = (\<lambda>s. None),
      parse_datetime = (\<lambda>s. None),
      parse_date = (\<lambda>s. None),
      valid_email = (\<lambda>s. CHR ''@'' \<in> set s),
      repr_datetime = (\<lambda>t. ''T''),
      repr_date = (\<lambda>d. ''D''),
      make_password = (\<lambda>s. ''#'' @ s),
      normalize_email = (\<lambda>s. s),
      normalize_username = (\<lambda>s. s),
      now = 500,
      date_of = (\<lambda>t. \<lparr>year = 2024, month = 5, day = 17\<rparr>),
      EMAIL_HOST_USER = ''team@example.org'',
      delivers = (\<lambda>r. True)\<rparr>"

definition sue :: UserProfile where
  "sue =
     \<lparr>user_id = 1, user_password = ''#s'', user_last_login = None, user_is_superuser = False,
      user_username = ''sue'', user_first_name = [], user_last_name = [],
      user_email = ''sue@example.org'', user_is_staff = False, user_is_active = True,
      user_date_joined = 10, user_role = ''Supervisor'', user_groups = [],
      user_user_permissions = []\<rparr>"

definition ian :: UserProfile where
  "ian =
     \<lparr>user_id = 2, user_password = ''#i'', user_last_login = None, user_is_superuser = False,
      user_username = ''ian'', user_first_name = [], user_last_name = [],
      user_email = ''ian@example.org'', user_is_staff = False, user_is_active = True,
      user_date_joined = 20, user_role = ''Intern'', user_groups = [],
      user_user_permissions = []\<rparr>"

definition joe :: UserProfile where
  "joe =
     \<lparr>user_id = 3, user_password = ''#j'', user_last_login = None, user_is_superuser = False,
      user_username = ''joe'', user_first_name = [], user_last_name = [],
      user_email = ''joe@example.org'', user_is_staff = False, user_is_active = True,
      user_date_joined = 30, user_role = ''Intern'', user_groups = [],
      user_user_permissions = []\<rparr>"

definition report :: Task where
  "report =
     \<lparr>task_id = 1, task_title = ''Report'', task_description = [], task_created_at = 100,
      task_due_date = None, task_is_completed = False, task_assigned_to = Some 2,
      task_assigned_by = Some 1, task_birth_date = None\<rparr>"

definition review :: Task where
  "review =
     \<lparr>task_id = 2, task_title = ''Review'', task_description = [], task_created_at = 110,
      task_due_date = None, task_is_completed = False, task_assigned_to = Some 1,
      task_assigned_by = Some 1, task_birth_date = None\<rparr>"

definition checkin :: Attendance where
  "checkin =
     \<lparr>att_id = 1, att_user = 2, att_status = ''P'', att_check_in_time = 120,
      att_check_out_time = None\<rparr>"

definition db :: store where
  "db =
     \<lparr>UserProfile_objects = [sue, ian, joe],
      Task_objects = [report, review],
      Attendance_objects = [checkin],
      UserProfile_seq = 3, Task_seq = 2, Attendance_seq = 1,
      Group_pks = [], Permission_pks = []\<rparr>"

section \<open>Properties\<close>

lemma birth_date_not_resolved: "\<not> resolves [''birth_date'', part]"
  by (simp add: date_field_names_def)

text \<open>
  Claim C1 does not hold of the code. \<open>birth_date\<close> is declared in \<open>Task\<close> (with the help
  text ``User's date of birth''), not in \<open>UserProfile\<close>: no user record carries a birth
  date, and the filter of \<open>send_happy_birthday_emails\<close>, which names \<open>birth_date\<close> on
  \<open>UserProfile\<close>, raises \<open>FieldError\<close> on every run, before any user is selected or any
  message is sent.
\<close>

theorem birthday_job_raises:
  "send_happy_birthday_emails e st = ([], Some ''FieldError'')
   \<and> ''birth_date'' \<notin> set UserProfile_field_names
   \<and> ''birth_date'' \<notin> fst ` set (UserProfile_fields e u)
   \<and> ''birth_date'' \<in> fst ` set (TaskSerializer_data e t)"
  by (simp add: send_happy_birthday_emails_def UserProfile_filter_def birth_date_not_resolved
        date_field_names_def
        UserProfile_field_names_def UserProfile_fields_def TaskSerializer_data_def Let_def)

lemma good_morning_job_sample:
  "map recipient_list (fst (send_good_morning_emails sample_env db)) =
     [[''sue@example.org''], [''ian@example.org''], [''joe@example.org'']]
   \<and> snd (send_good_morning_emails sample_env db) = None"
  by (simp add: send_good_morning_emails_def UserProfile_filter_def UserProfile_field_names_def
        UserProfile_fields_def sample_env_def db_def sue_def ian_def joe_def)

lemma complete_data_valid:
  "TaskSerializer_is_valid e st True [''is_completed'' \<mapsto> JBool True] =
     Inr \<lparr>v_title = None, v_description = None, v_due_date = None, v_is_completed = Some True,
          v_assigned_to = None, v_assigned_by = None, v_birth_date = None\<rparr>"
  by (simp add: TaskSerializer_is_valid_def run_field_def run_field_null_def)

lemma find_map_replace:
  assumes "find P xs = Some t" and "P t'" and "\<And>x. P x \<Longrightarrow> Q x"
  shows "find P (map (\<lambda>x. if Q x then t' else x) xs) = Some t'"
  using assms by (induction xs) (auto split: if_splits)

lemma map_replace_idem:
  assumes "Q t'"
  shows "map (\<lambda>x. if Q x then t' else x) (map (\<lambda>x. if Q x then t' else x) xs)
         = map (\<lambda>x. if Q x then t' else x) xs"
  using assms by (induction xs) auto

lemma patch_success:
  assumes "user_role (user request) = INTERN"
      and "find (\<lambda>t. task_id t = pk \<and> task_assigned_to t = Some (user_id (user request)))
             (Task_objects st) = Some task"
  shows "MarkTaskCompleteView_patch e st request pk =
           (Response (Message ''Task marked as complete.'') HTTP_200_OK,
            Task_save (task\<lparr>task_is_completed := True\<rparr>) st)"
  using assms
  by (simp add: MarkTaskCompleteView_patch_def complete_data_valid TaskSerializer_update_def Let_def)

lemma find_after_save:
  assumes "find (\<lambda>t. task_id t = pk \<and> task_assigned_to t = Some uid) (Task_objects st) = Some task"
  shows "find (\<lambda>t. task_id t = pk \<and> task_assigned_to t = Some uid)
           (Task_objects (Task_save (task\<lparr>task_is_completed := True\<rparr>) st))
         = Some (task\<lparr>task_is_completed := True\<rparr>)"
proof -
  from assms have P: "task_id task = pk \<and> task_assigned_to task = Some uid"
    by (auto simp: find_Some_iff)
  have "find (\<lambda>t. task_id t = pk \<and> task_assigned_to t = Some uid)
          (map (\<lambda>x. if task_id x = pk then task\<lparr>task_is_completed := True\<rparr> else x) (Task_objects st))
        = Some (task\<lparr>task_is_completed := True\<rparr>)"
    by (rule find_map_replace [OF assms]) (use P in auto)
  with P show ?thesis by (simp add: Task_save_def)
qed

lemma save_twice:
  "Task_save t (Task_save t st) = Task_save t st"
  by (simp add: Task_save_def map_replace_idem [where Q = "\<lambda>x. task_id x = task_id t"] del: map_map)

text \<open>
  Claim C10. When the caller is an intern and the task with the given key is assigned to
  them, \<open>MarkTaskCompleteView.patch\<close> answers 200 and writes one row: the task, with
  \<open>is_completed\<close> true and its title, description, creation time, due date, assignee,
  assigner (and its key and birth date) as they were. The same request on the new
  database gives the same answer and the same database.
\<close>

theorem complete_task_frame:
  assumes "user_role (user request) = INTERN"
      and "find (\<lambda>t. task_id t = pk \<and> task_assigned_to t = Some (user_id (user request)))
             (Task_objects st) = Some task"
  shows "\<exists>task' st'.
           MarkTaskCompleteView_patch e st request pk =
             (Response (Message ''Task marked as complete.'') HTTP_200_OK, st')
         \<and> st' = Task_save task' st
         \<and> find (\<lambda>t. task_id t = pk \<and> task_assigned_to t = Some (user_id (user request)))
             (Task_objects st') = Some task'
         \<and> task_is_completed task' = True
         \<and> task_id task' = task_id task
         \<and> task_title task' = task_title task
         \<and> task_description task' = task_description task
         \<and> task_created_at task' = task_created_at task
         \<and> task_due_date task' = task_due_date task
         \<and> task_assigned_to task' = task_assigned_to task
         \<and> task_assigned_by task' = task_assigned_by task
         \<and> task_birth_date task' = task_birth_date task
         \<and> MarkTaskCompleteView_patch e st' request pk =
             (Response (Message ''Task marked as complete.'') HTTP_200_OK, st')"
proof -
  let ?t = "task\<lparr>task_is_completed := True\<rparr>"
  let ?st = "Task_save ?t st"
  have first: "MarkTaskCompleteView_patch e st request pk =
      (Response (Message ''Task marked as complete.'') HTTP_200_OK, ?st)"
    by (rule patch_success [OF assms])
  have found: "find (\<lambda>t. task_id t = pk \<and> task_assigned_to t = Some (user_id (user request)))
      (Task_objects ?st) = Some ?t"
    by (rule find_after_save [OF assms(2)])
  have "MarkTaskCompleteView_patch e ?st request pk =
      (Response (Message ''Task marked as complete.'') HTTP_200_OK, Task_save (?t\<lparr>task_is_completed := True\<rparr>) ?st)"
    by (rule patch_success [OF assms(1) found])
  then have again: "MarkTaskCompleteView_patch e ?st request pk =
      (Response (Message ''Task marked as complete.'') HTTP_200_OK, ?st)"
    by (simp add: save_twice)
  show ?thesis
    apply (rule exI [of _ ?t])
    apply (rule exI [of _ ?st])
    using first found again by simp
qed

theorem complete_task_frame_witness:
  "\<exists>task' st'.
     MarkTaskCompleteView_patch sample_env db \<lparr>user = ian, data = Map.empty\<rparr> 1 =
       (Response (Message ''Task marked as complete.'') HTTP_200_OK, st')
     \<and> Task_objects st' = [task', review]
     \<and> task' = report\<lparr>task_is_completed := True\<rparr>
     \<and> MarkTaskCompleteView_patch sample_env st' \<lparr>user = ian, data = Map.empty\<rparr> 1 =
       (Response (Message ''Task marked as complete.'') HTTP_200_OK, st')"
proof -
  have r: "user_role (user \<lparr>user = ian, data = Map.empty\<rparr>) = INTERN"
    by (simp add: ian_def INTERN_def)
  have f: "find (\<lambda>t. task_id t = 1 \<and> task_assigned_to t = Some (user_id (user \<lparr>user = ian, data = Map.empty\<rparr>)))
             (Task_objects db) = Some report"
    by (simp add: db_def ian_def report_def)
  from complete_task_frame [OF r f, of sample_env] obtain task' st' where
    h: "MarkTaskCompleteView_patch sample_env db \<lparr>user = ian, data = Map.empty\<rparr> 1 =
          (Response (Message ''Task marked as complete.'') HTTP_200_OK, st')"
       "st' = Task_save task' db"
       "task_is_completed task' = True"
       "task_id task' = task_id report"
       "task_title task' = task_title report"
       "task_description task' = task_description report"
       "task_created_at task' = task_created_at report"
       "task_due_date task' = task_due_date report"
       "task_assigned_to task' = task_assigned_to report"
       "task_assigned_by task' = task_assigned_by report"
       "task_birth_date task' = task_birth_date report"
       "MarkTaskCompleteView_patch sample_env st' \<lparr>user = ian, data = Map.empty\<rparr> 1 =
          (Response (Message ''Task marked as complete.'') HTTP_200_OK, st')"
    by blast
  have eq: "task' = report\<lparr>task_is_completed := True\<rparr>"
    using h(3-11) by (cases task') (simp add: report_def)
  have "Task_objects st' = [task', review]"
    using h(2) eq by (simp add: Task_save_def db_def report_def review_def)
  with h(1,12) eq show ?thesis by blast
qed

text \<open>
  Claim C2, amended. A caller who is not an intern gets 401 and the database is
  unchanged, whatever the key: whether there is such a task, and whoever it is assigned
  to (the caller included). An intern gets 404, and the database is unchanged, when no
  task with the key is assigned to them: there is no such task, or it is assigned to
  someone else or to nobody. So no caller learns from the answer whether a task that is
  not theirs exists.
\<close>

theorem complete_task_masking:
  "(user_role (user request) \<noteq> INTERN \<longrightarrow>
      MarkTaskCompleteView_patch e st request pk =
        (Response (Error ''Only interns can mark tasks as complete.'') HTTP_401_UNAUTHORIZED, st))
   \<and> (user_role (user request) = INTERN \<longrightarrow>
        (\<forall>t \<in> set (Task_objects st).
           task_id t = pk \<longrightarrow> task_assigned_to t \<noteq> Some (user_id (user request))) \<longrightarrow>
        MarkTaskCompleteView_patch e st request pk =
          (Response (Error ''Task not found or not assigned to you.'') HTTP_404_NOT_FOUND, st))"
proof (intro conjI impI)
  assume "user_role (user request) \<noteq> INTERN"
  then show "MarkTaskCompleteView_patch e st request pk =
      (Response (Error ''Only interns can mark tasks as complete.'') HTTP_401_UNAUTHORIZED, st)"
    by (simp add: MarkTaskCompleteView_patch_def)
next
  assume intern: "user_role (user request) = INTERN"
     and none: "\<forall>t \<in> set (Task_objects st).
           task_id t = pk \<longrightarrow> task_assigned_to t \<noteq> Some (user_id (user request))"
  from none have
    "find (\<lambda>t. task_id t = pk \<and> task_assigned_to t = Some (user_id (user request)))
       (Task_objects st) = None"
    by (auto simp: find_None_iff)
  with intern show "MarkTaskCompleteView_patch e st request pk =
      (Response (Error ''Task not found or not assigned to you.'') HTTP_404_NOT_FOUND, st)"
    by (simp add: MarkTaskCompleteView_patch_def)
qed

theorem complete_task_masking_witness:
  "MarkTaskCompleteView_patch sample_env db \<lparr>user = joe, data = Map.empty\<rparr> 1 =
     (Response (Error ''Task not found or not assigned to you.'') HTTP_404_NOT_FOUND, db)
   \<and> MarkTaskCompleteView_patch sample_env db \<lparr>user = joe, data = Map.empty\<rparr> 9 =
     (Response (Error ''Task not found or not assigned to you.'') HTTP_404_NOT_FOUND, db)
   \<and> MarkTaskCompleteView_patch sample_env db \<lparr>user = sue, data = Map.empty\<rparr> 2 =
     (Response (Error ''Only interns can mark tasks as complete.'') HTTP_401_UNAUTHORIZED, db)
   \<and> MarkTaskCompleteView_patch sample_env db \<lparr>user = sue, data = Map.empty\<rparr> 9 =
     (Response (Error ''Only interns can mark tasks as complete.'') HTTP_401_UNAUTHORIZED, db)"
proof -
  let ?joe = "\<lparr>user = joe, data = Map.empty\<rparr>"
  let ?sue = "\<lparr>user = sue, data = Map.empty\<rparr>"
  have a: "\<forall>t \<in> set (Task_objects db).
      task_id t = 1 \<longrightarrow> task_assigned_to t \<noteq> Some (user_id (user ?joe))"
    by (simp add: db_def report_def review_def joe_def)
  have b: "\<forall>t \<in> set (Task_objects db).
      task_id t = 9 \<longrightarrow> task_assigned_to t \<noteq> Some (user_id (user ?joe))"
    by (simp add: db_def report_def review_def joe_def)
  have r: "user_role (user ?joe) = INTERN" "user_role (user ?sue) \<noteq> INTERN"
    by (simp_all add: joe_def sue_def INTERN_def)
  show ?thesis
    using complete_task_masking [where request = ?joe and st = db and pk = 1 and e = sample_env]
          complete_task_masking [where request = ?joe and st = db and pk = 9 and e = sample_env]
          complete_task_masking [where request = ?sue and st = db and pk = 2 and e = sample_env]
          complete_task_masking [where request = ?sue and st = db and pk = 9 and e = sample_env]
          a b r
    by blast
qed

lemma supervisor_own_task_sample:
  "find (\<lambda>t. task_id t = 2 \<and> task_assigned_to t = Some (user_id sue)) (Task_objects db)
     = Some review"
  by (simp add: db_def report_def review_def sue_def)

text \<open>
  Claim C2 as stated fails for a caller who is not an intern: the role is checked
  before the task is looked up, and a supervisor asking for a task that does not exist
  gets 401, not 404.
\<close>

theorem complete_task_masking_counterexample:
  "find (\<lambda>t. task_id t = 9) (Task_objects db) = None
   \<and> MarkTaskCompleteView_patch sample_env db \<lparr>user = sue, data = Map.empty\<rparr> 9 =
     (Response (Error ''Only interns can mark tasks as complete.'') HTTP_401_UNAUTHORIZED, db)"
  by (simp add: MarkTaskCompleteView_patch_def db_def report_def review_def sue_def INTERN_def)

lemma attendance_valid_iff:
  assumes "uid \<in> set (user_pks st)"
  shows "AttendanceSerializer_is_valid e st False [''user'' \<mapsto> JInt uid, ''status'' \<mapsto> s] =
           (case ChoiceField status_choices s of
              Some c \<Rightarrow> Inr \<lparr>v_user = Some uid, v_status = Some c, v_check_out_time = None\<rparr>
            | None \<Rightarrow> Inl [''status''])"
  using assms
  by (cases s)
     (simp_all add: AttendanceSerializer_is_valid_def run_field_def run_field_null_def
        PrimaryKeyRelatedField_def Let_def split: option.splits)

text \<open>
  Claim C3, amended. For an authenticated caller, \<open>MarkAttendanceView.post\<close> answers 401
  and writes nothing when the caller is not an intern. For an intern it reads the status
  from the payload, \<open>'P'\<close> when the payload has none: when that is one of the choices, it
  creates one attendance record, of the caller and with that status, and answers 201;
  otherwise it answers 400 and writes nothing. What the payload holds under \<open>user\<close>
  makes no difference.
\<close>

theorem mark_attendance:
  assumes "user request \<in> set (UserProfile_objects st)"
  shows "MarkAttendanceView_post e st request =
           (if user_role (user request) \<noteq> INTERN then
              (Response (Error ''Only interns can mark attendance.'') HTTP_401_UNAUTHORIZED, st)
            else
              case ChoiceField status_choices (or_else (data request ''status'') (JStr ''P'')) of
                Some c \<Rightarrow>
                  (let a = \<lparr>att_id = Attendance_seq st + 1,
                            att_user = user_id (user request),
                            att_status = c,
                            att_check_in_time = now e,
                            att_check_out_time = None\<rparr>
                   in (Response (Data (AttendanceSerializer_data e a)) HTTP_201_CREATED,
                       st\<lparr>Attendance_objects := Attendance_objects st @ [a],
                          Attendance_seq := Attendance_seq st + 1\<rparr>))
              | None \<Rightarrow> (Response (Errors [''status'']) HTTP_400_BAD_REQUEST, st))
         \<and> (data request ''status'' = None \<longrightarrow>
              ChoiceField status_choices (or_else (data request ''status'') (JStr ''P'')) = Some ''P'')
         \<and> MarkAttendanceView_post e st (request\<lparr>data := (data request)(''user'' := x)\<rparr>)
             = MarkAttendanceView_post e st request"
proof -
  have "user_id (user request) \<in> set (user_pks st)"
    using assms by (simp add: user_pks_def)
  then show ?thesis
    by (simp add: MarkAttendanceView_post_def attendance_valid_iff AttendanceSerializer_create_def
          Let_def status_choices_def split: option.splits)
qed

theorem mark_attendance_witness:
  "MarkAttendanceView_post sample_env db \<lparr>user = ian, data = [''user'' \<mapsto> JInt 1]\<rparr> =
     (Response (Data [(''id'', JInt 2), (''user'', JInt 2), (''status'', JStr ''P''),
                      (''check_in_time'', JStr ''T''), (''check_out_time'', JNull)])
        HTTP_201_CREATED,
      db\<lparr>Attendance_objects :=
           [checkin,
            \<lparr>att_id = 2, att_user = 2, att_status = ''P'', att_check_in_time = 500,
             att_check_out_time = None\<rparr>],
         Attendance_seq := 2\<rparr>)"
proof -
  have a: "user \<lparr>user = ian, data = [''user'' \<mapsto> JInt 1]\<rparr>
             \<in> set (UserProfile_objects db)"
    by (simp add: db_def)
  show ?thesis
    using mark_attendance [OF a, of sample_env]
    by (simp add: ian_def INTERN_def status_choices_def AttendanceSerializer_data_def
          sample_env_def db_def)
qed

text \<open>
  Claim C3 as stated fails for a payload whose status is not a choice: the serializer
  refuses it, and no record is created.
\<close>

theorem mark_attendance_counterexample:
  "MarkAttendanceView_post sample_env db \<lparr>user = ian, data = [''status'' \<mapsto> JStr ''X'']\<rparr> =
     (Response (Errors [''status'']) HTTP_400_BAD_REQUEST, db)"
  by (simp add: MarkAttendanceView_post_def AttendanceSerializer_is_valid_def run_field_def
        run_field_null_def PrimaryKeyRelatedField_def user_pks_def status_choices_def
        ian_def sue_def joe_def db_def INTERN_def Let_def)

lemma task_valid_assigned_by:
  assumes "TaskSerializer_is_valid e st partial d = Inr v"
      and "d ''assigned_by'' = Some (JInt k)"
  shows "v_assigned_by v = Some (Some k)"
proof -
  have "\<not> is_invalid (run_field_null partial False (PrimaryKeyRelatedField e (user_pks st))
                        (related_data (d ''assigned_by'')))"
    using assms(1)
    by (auto simp: TaskSerializer_is_valid_def Let_def split: if_splits)
  then have ok: "PrimaryKeyRelatedField e (user_pks st) (JInt k) = Some k"
    using assms(2)
    by (auto simp: run_field_null_def PrimaryKeyRelatedField_def split: option.splits if_splits)
  have "v_assigned_by v =
          given (run_field_null partial False (PrimaryKeyRelatedField e (user_pks st))
                   (related_data (d ''assigned_by'')))"
    using assms(1)
    by (auto simp: TaskSerializer_is_valid_def Let_def split: if_splits)
  then show ?thesis
    using assms(2) ok by (simp add: run_field_null_def)
qed

text \<open>
  Claim C4, amended. \<open>AssignTaskView.post\<close> answers 401 and writes nothing when the caller
  is not a supervisor. For a supervisor it validates the payload with the caller's key
  under \<open>assigned_by\<close>: when that is valid it creates one task, whose \<open>assigned_by\<close> is the
  caller, and answers 201; otherwise it answers 400 and writes nothing. What the payload
  holds under \<open>assigned_by\<close> makes no difference.
\<close>

theorem assign_task:
  "(user_role (user request) \<noteq> SUPERVISOR \<longrightarrow>
      AssignTaskView_post e st request =
        (Response (Error ''Only supervisors can assign tasks.'') HTTP_401_UNAUTHORIZED, st))
   \<and> (user_role (user request) = SUPERVISOR \<longrightarrow>
        (case TaskSerializer_is_valid e st False
                ((data request)(''assigned_by'' \<mapsto> JInt (user_id (user request)))) of
           Inr v \<Rightarrow>
             (\<exists>t. AssignTaskView_post e st request =
                    (Response (Data (TaskSerializer_data e t)) HTTP_201_CREATED,
                     st\<lparr>Task_objects := Task_objects st @ [t], Task_seq := Task_seq st + 1\<rparr>)
                  \<and> task_assigned_by t = Some (user_id (user request)))
         | Inl errors \<Rightarrow>
             AssignTaskView_post e st request =
               (Response (Errors errors) HTTP_400_BAD_REQUEST, st)))
   \<and> AssignTaskView_post e st (request\<lparr>data := (data request)(''assigned_by'' := x)\<rparr>)
       = AssignTaskView_post e st request"
proof (intro conjI impI)
  assume "user_role (user request) \<noteq> SUPERVISOR"
  then show "AssignTaskView_post e st request =
      (Response (Error ''Only supervisors can assign tasks.'') HTTP_401_UNAUTHORIZED, st)"
    by (simp add: AssignTaskView_post_def)
next
  let ?d = "(data request)(''assigned_by'' \<mapsto> JInt (user_id (user request)))"
  assume sup: "user_role (user request) = SUPERVISOR"
  show "case TaskSerializer_is_valid e st False ?d of
           Inr v \<Rightarrow>
             (\<exists>t. AssignTaskView_post e st request =
                    (Response (Data (TaskSerializer_data e t)) HTTP_201_CREATED,
                     st\<lparr>Task_objects := Task_objects st @ [t], Task_seq := Task_seq st + 1\<rparr>)
                  \<and> task_assigned_by t = Some (user_id (user request)))
         | Inl errors \<Rightarrow>
             AssignTaskView_post e st request =
               (Response (Errors errors) HTTP_400_BAD_REQUEST, st)"
  proof (cases "TaskSerializer_is_valid e st False ?d")
    case (Inl errors)
    with sup show ?thesis by (simp add: AssignTaskView_post_def)
  next
    case (Inr v)
    let ?t = "fst (TaskSerializer_create e v st)"
    have "v_assigned_by v = Some (Some (user_id (user request)))"
      by (rule task_valid_assigned_by [OF Inr]) simp
    with sup Inr have
      "AssignTaskView_post e st request =
         (Response (Data (TaskSerializer_data e ?t)) HTTP_201_CREATED,
          st\<lparr>Task_objects := Task_objects st @ [?t], Task_seq := Task_seq st + 1\<rparr>)
       \<and> task_assigned_by ?t = Some (user_id (user request))"
      by (simp add: AssignTaskView_post_def TaskSerializer_create_def Let_def)
    then have
      "\<exists>t. AssignTaskView_post e st request =
             (Response (Data (TaskSerializer_data e t)) HTTP_201_CREATED,
              st\<lparr>Task_objects := Task_objects st @ [t], Task_seq := Task_seq st + 1\<rparr>)
           \<and> task_assigned_by t = Some (user_id (user request))"
      by (rule exI)
    with Inr show ?thesis by simp
  qed
next
  show "AssignTaskView_post e st (request\<lparr>data := (data request)(''assigned_by'' := x)\<rparr>)
       = AssignTaskView_post e st request"
    by (simp add: AssignTaskView_post_def)
qed

theorem assign_task_witness:
  "AssignTaskView_post sample_env db
     \<lparr>user = sue,
      data = [''title'' \<mapsto> JStr ''Slides'', ''assigned_to'' \<mapsto> JInt 3, ''assigned_by'' \<mapsto> JInt 2]\<rparr> =
     (Response (Data [(''id'', JInt 3), (''title'', JStr ''Slides''), (''description'', JStr []),
                      (''created_at'', JStr ''T''), (''due_date'', JNull),
                      (''is_completed'', JBool False), (''assigned_to'', JInt 3),
                      (''assigned_by'', JInt 1), (''birth_date'', JNull)])
        HTTP_201_CREATED,
      db\<lparr>Task_objects :=
           [report, review,
            \<lparr>task_id = 3, task_title = ''Slides'', task_description = [], task_created_at = 500,
             task_due_date = None, task_is_completed = False, task_assigned_to = Some 3,
             task_assigned_by = Some 1, task_birth_date = None\<rparr>],
         Task_seq := 3\<rparr>)
   \<and> AssignTaskView_post sample_env db \<lparr>user = ian, data = [''title'' \<mapsto> JStr ''Slides'']\<rparr> =
     (Response (Error ''Only supervisors can assign tasks.'') HTTP_401_UNAUTHORIZED, db)"
proof -
  let ?r = "\<lparr>user = sue,
      data = [''title'' \<mapsto> JStr ''Slides'', ''assigned_to'' \<mapsto> JInt 3, ''assigned_by'' \<mapsto> JInt 2]\<rparr>"
  let ?q = "\<lparr>user = ian, data = [''title'' \<mapsto> JStr ''Slides'']\<rparr>"
  have v: "TaskSerializer_is_valid sample_env db False
             ((data ?r)(''assigned_by'' \<mapsto> JInt (user_id (user ?r)))) =
           Inr \<lparr>v_title = Some ''Slides'', v_description = None, v_due_date = None,
                v_is_completed = None, v_assigned_to = Some (Some 3),
                v_assigned_by = Some (Some 1), v_birth_date = None\<rparr>"
    by (simp add: TaskSerializer_is_valid_def run_field_def run_field_null_def CharField_def
          PrimaryKeyRelatedField_def user_pks_def sample_env_def db_def sue_def ian_def joe_def
          Let_def)
  have s: "user_role (user ?r) = SUPERVISOR" "user_role (user ?q) \<noteq> SUPERVISOR"
    by (simp_all add: sue_def ian_def SUPERVISOR_def)
  from assign_task [of ?r sample_env db] s(1) v obtain t where
    t: "AssignTaskView_post sample_env db ?r =
          (Response (Data (TaskSerializer_data sample_env t)) HTTP_201_CREATED,
           db\<lparr>Task_objects := Task_objects db @ [t], Task_seq := Task_seq db + 1\<rparr>)"
    by auto
  then have "t = \<lparr>task_id = 3, task_title = ''Slides'', task_description = [], task_created_at = 500,
             task_due_date = None, task_is_completed = False, task_assigned_to = Some 3,
             task_assigned_by = Some 1, task_birth_date = None\<rparr>"
    using v s(1)
    by (simp add: AssignTaskView_post_def TaskSerializer_create_def Let_def db_def sample_env_def)
  with t have first: "AssignTaskView_post sample_env db ?r =
     (Response (Data [(''id'', JInt 3), (''title'', JStr ''Slides''), (''description'', JStr []),
                      (''created_at'', JStr ''T''), (''due_date'', JNull),
                      (''is_completed'', JBool False), (''assigned_to'', JInt 3),
                      (''assigned_by'', JInt 1), (''birth_date'', JNull)])
        HTTP_201_CREATED,
      db\<lparr>Task_objects :=
           [report, review,
            \<lparr>task_id = 3, task_title = ''Slides'', task_description = [], task_created_at = 500,
             task_due_date = None, task_is_completed = False, task_assigned_to = Some 3,
             task_assigned_by = Some 1, task_birth_date = None\<rparr>],
         Task_seq := 3\<rparr>)"
    by (simp add: TaskSerializer_data_def sample_env_def db_def)
  from assign_task [of ?q sample_env db] s(2) have second:
    "AssignTaskView_post sample_env db ?q =
       (Response (Error ''Only supervisors can assign tasks.'') HTTP_401_UNAUTHORIZED, db)"
    by blast
  from first second show ?thesis by blast
qed

lemma related_blank_is_null:
  "run_field_null partial required conv (related_data (Some (JStr []))) = Valid None"
  "run_field partial required conv (related_data (Some (JStr []))) = Invalid"
  by (simp_all add: run_field_null_def run_field_def)

lemma assign_task_blank_assignee_sample:
  "AssignTaskView_post sample_env db
     \<lparr>user = sue, data = [''title'' \<mapsto> JStr ''Slides'', ''assigned_to'' \<mapsto> JStr []]\<rparr> =
     (Response (Data [(''id'', JInt 3), (''title'', JStr ''Slides''), (''description'', JStr []),
                      (''created_at'', JStr ''T''), (''due_date'', JNull),
                      (''is_completed'', JBool False), (''assigned_to'', JNull),
                      (''assigned_by'', JInt 1), (''birth_date'', JNull)])
        HTTP_201_CREATED,
      db\<lparr>Task_objects :=
           [report, review,
            \<lparr>task_id = 3, task_title = ''Slides'', task_description = [], task_created_at = 500,
             task_due_date = None, task_is_completed = False, task_assigned_to = None,
             task_assigned_by = Some 1, task_birth_date = None\<rparr>],
         Task_seq := 3\<rparr>)"
  by (simp add: AssignTaskView_post_def TaskSerializer_is_valid_def TaskSerializer_create_def
        TaskSerializer_data_def run_field_def run_field_null_def CharField_def
        PrimaryKeyRelatedField_def user_pks_def sample_env_def db_def sue_def ian_def joe_def
        SUPERVISOR_def Let_def)

text \<open>
  Claim C4 as stated fails for a payload the serializer refuses, here one without a
  title: no task is created.
\<close>

theorem assign_task_counterexample:
  "AssignTaskView_post sample_env db \<lparr>user = sue, data = [''assigned_to'' \<mapsto> JInt 2]\<rparr> =
     (Response (Errors [''title'']) HTTP_400_BAD_REQUEST, db)"
  by (simp add: AssignTaskView_post_def TaskSerializer_is_valid_def run_field_def
        run_field_null_def PrimaryKeyRelatedField_def user_pks_def
        ian_def sue_def joe_def db_def SUPERVISOR_def Let_def)

lemma get_object_user_id:
  assumes "UserProfileView_get_object st pk = Some u"
  shows "user_id u = pk" and "u \<in> set (UserProfile_objects st)"
  using assms by (auto simp: UserProfileView_get_object_def find_Some_iff)

text \<open>
  Claim C5, amended. When a supervisor deletes an existing user, the answer is 200 and,
  in the new database, no user has the key, no task is assigned to the user and no
  attendance record is the user's: the tasks assigned to the user and the user's
  attendance records are deleted. Every other task stays: one the user had assigned, with
  \<open>assigned_by\<close> cleared, any other as it was. The other attendance records stay as they
  were.
\<close>

theorem delete_user_cascade:
  assumes "user_role (user request) = SUPERVISOR"
      and "UserProfileView_get_object st pk = Some u"
  shows "\<exists>st'.
           UserProfileView_delete st request pk =
             (Response (Message ''UserProfile deleted.'') HTTP_200_OK, st')
         \<and> (\<forall>x \<in> set (UserProfile_objects st'). user_id x \<noteq> pk)
         \<and> (\<forall>t \<in> set (Task_objects st').
               task_assigned_to t \<noteq> Some pk \<and> task_assigned_by t \<noteq> Some pk)
         \<and> (\<forall>a \<in> set (Attendance_objects st'). att_user a \<noteq> pk)
         \<and> Task_objects st' =
             map (\<lambda>t. if task_assigned_by t = Some pk then t\<lparr>task_assigned_by := None\<rparr> else t)
               (filter (\<lambda>t. task_assigned_to t \<noteq> Some pk) (Task_objects st))
         \<and> (\<forall>t \<in> set (Task_objects st).
               task_assigned_to t \<noteq> Some pk \<and> task_assigned_by t = Some pk \<longrightarrow>
               t\<lparr>task_assigned_by := None\<rparr> \<in> set (Task_objects st'))
         \<and> (\<forall>t \<in> set (Task_objects st).
               task_assigned_to t \<noteq> Some pk \<and> task_assigned_by t \<noteq> Some pk \<longrightarrow>
               t \<in> set (Task_objects st'))
         \<and> Attendance_objects st' = filter (\<lambda>a. att_user a \<noteq> pk) (Attendance_objects st)"
proof -
  let ?st = "UserProfile_delete u st"
  have pk: "user_id u = pk"
    by (rule get_object_user_id(1) [OF assms(2)])
  have result: "UserProfileView_delete st request pk =
      (Response (Message ''UserProfile deleted.'') HTTP_200_OK, ?st)"
    using assms by (simp add: UserProfileView_delete_def)
  have users: "\<forall>x \<in> set (UserProfile_objects ?st). user_id x \<noteq> pk"
    using pk by (simp add: UserProfile_delete_def)
  have tasks_eq: "Task_objects ?st =
      map (\<lambda>t. if task_assigned_by t = Some pk then t\<lparr>task_assigned_by := None\<rparr> else t)
        (filter (\<lambda>t. task_assigned_to t \<noteq> Some pk) (Task_objects st))"
    using pk by (simp add: UserProfile_delete_def)
  have tasks: "\<forall>t \<in> set (Task_objects ?st).
      task_assigned_to t \<noteq> Some pk \<and> task_assigned_by t \<noteq> Some pk"
    unfolding tasks_eq by auto
  have cleared: "\<forall>t \<in> set (Task_objects st).
      task_assigned_to t \<noteq> Some pk \<and> task_assigned_by t = Some pk \<longrightarrow>
      t\<lparr>task_assigned_by := None\<rparr> \<in> set (Task_objects ?st)"
    unfolding tasks_eq by force
  have kept: "\<forall>t \<in> set (Task_objects st).
      task_assigned_to t \<noteq> Some pk \<and> task_assigned_by t \<noteq> Some pk \<longrightarrow>
      t \<in> set (Task_objects ?st)"
    unfolding tasks_eq by force
  have atts_eq: "Attendance_objects ?st = filter (\<lambda>a. att_user a \<noteq> pk) (Attendance_objects st)"
    using pk by (simp add: UserProfile_delete_def)
  have atts: "\<forall>a \<in> set (Attendance_objects ?st). att_user a \<noteq> pk"
    unfolding atts_eq by simp
  show ?thesis
    apply (rule exI [of _ ?st])
    using result users tasks atts tasks_eq cleared kept atts_eq by blast
qed

theorem delete_user_cascade_witness:
  "UserProfileView_delete db \<lparr>user = sue, data = Map.empty\<rparr> 2 =
     (Response (Message ''UserProfile deleted.'') HTTP_200_OK,
      db\<lparr>UserProfile_objects := [sue, joe], Task_objects := [review], Attendance_objects := []\<rparr>)
   \<and> UserProfileView_delete
        (db\<lparr>Task_objects := [report, review\<lparr>task_assigned_to := Some 3\<rparr>]\<rparr>)
        \<lparr>user = sue, data = Map.empty\<rparr> 1 =
     (Response (Message ''UserProfile deleted.'') HTTP_200_OK,
      db\<lparr>UserProfile_objects := [ian, joe],
         Task_objects := [report\<lparr>task_assigned_by := None\<rparr>,
                          review\<lparr>task_assigned_to := Some 3, task_assigned_by := None\<rparr>]\<rparr>)"
proof -
  let ?r = "\<lparr>user = sue, data = Map.empty\<rparr>"
  let ?db = "db\<lparr>Task_objects := [report, review\<lparr>task_assigned_to := Some 3\<rparr>]\<rparr>"
  have s: "user_role (user ?r) = SUPERVISOR"
    by (simp add: sue_def SUPERVISOR_def)
  have g: "UserProfileView_get_object db 2 = Some ian"
    by (simp add: UserProfileView_get_object_def db_def sue_def ian_def)
  have h: "UserProfileView_get_object ?db 1 = Some sue"
    by (simp add: UserProfileView_get_object_def db_def sue_def)
  from delete_user_cascade [OF s g] obtain st' where
    a: "UserProfileView_delete db ?r 2 =
          (Response (Message ''UserProfile deleted.'') HTTP_200_OK, st')"
       "Task_objects st' = [review]" "Attendance_objects st' = []"
    by (auto simp: db_def report_def review_def checkin_def)
  from a(1) have "st' = UserProfile_delete ian db"
    using s g by (simp add: UserProfileView_delete_def)
  with a(2,3) have first: "st' = db\<lparr>UserProfile_objects := [sue, joe], Task_objects := [review],
      Attendance_objects := []\<rparr>"
    by (simp add: UserProfile_delete_def db_def sue_def ian_def joe_def)
  from delete_user_cascade [OF s h] obtain st'' where
    b: "UserProfileView_delete ?db ?r 1 =
          (Response (Message ''UserProfile deleted.'') HTTP_200_OK, st'')"
       "Task_objects st'' = [report\<lparr>task_assigned_by := None\<rparr>,
                          review\<lparr>task_assigned_to := Some 3, task_assigned_by := None\<rparr>]"
       "Attendance_objects st'' = [checkin]"
    by (auto simp: db_def report_def review_def checkin_def)
  from b(1) have "st'' = UserProfile_delete sue ?db"
    using s h by (simp add: UserProfileView_delete_def)
  with b(2,3) have second: "st'' = db\<lparr>UserProfile_objects := [ian, joe],
         Task_objects := [report\<lparr>task_assigned_by := None\<rparr>,
                          review\<lparr>task_assigned_to := Some 3, task_assigned_by := None\<rparr>]\<rparr>"
    by (simp add: UserProfile_delete_def db_def sue_def ian_def joe_def)
  from a(1) b(1) first second show ?thesis by simp
qed

text \<open>
  Claim C5 as stated fails for a task the user assigned to themselves: \<open>assigned_to\<close>
  cascades, so the task is deleted and does not survive with \<open>assigned_by\<close> cleared.
\<close>

theorem delete_user_cascade_counterexample:
  "review \<in> set (Task_objects db)
   \<and> task_assigned_by review = Some 1
   \<and> UserProfileView_delete db \<lparr>user = sue, data = Map.empty\<rparr> 1 =
     (Response (Message ''UserProfile deleted.'') HTTP_200_OK,
      db\<lparr>UserProfile_objects := [ian, joe],
         Task_objects := [report\<lparr>task_assigned_by := None\<rparr>]\<rparr>)
   \<and> find (\<lambda>t. task_id t = task_id review)
        (Task_objects (snd (UserProfileView_delete db \<lparr>user = sue, data = Map.empty\<rparr> 1))) = None"
  by (simp add: UserProfileView_delete_def UserProfileView_get_object_def UserProfile_delete_def
        db_def sue_def ian_def joe_def report_def review_def checkin_def SUPERVISOR_def)

text \<open>
  Claim C6. For an existing task and a payload \<open>TaskSerializer\<close> accepts, \<open>TaskView.put\<close>
  answers 200 and saves the update when the caller is a supervisor or the user the task
  is assigned to, and answers 401 with the database unchanged otherwise; so it succeeds if
  and only if the caller is a supervisor or the assignee. The same holds of
  \<open>AttendanceView.put\<close>, with the record's user as the owner.
\<close>

theorem generic_update_policy:
  "(TaskView_get_object st pk = Some task \<longrightarrow>
    TaskSerializer_is_valid e st False (data request) = Inr v \<longrightarrow>
      (if user_role (user request) = SUPERVISOR
          \<or> task_assigned_to task = Some (user_id (user request))
       then TaskView_put e st request pk =
              (Response (Data (TaskSerializer_data e (fst (TaskSerializer_update task v st))))
                 HTTP_200_OK,
               snd (TaskSerializer_update task v st))
       else TaskView_put e st request pk =
              (Response (Error ''Only supervisors or the assigned intern can update tasks.'')
                 HTTP_401_UNAUTHORIZED, st))
      \<and> (status_code (fst (TaskView_put e st request pk)) = Some HTTP_200_OK) =
          (user_role (user request) = SUPERVISOR
           \<or> task_assigned_to task = Some (user_id (user request))))
   \<and> (AttendanceView_get_object st pk = Some attendance \<longrightarrow>
      AttendanceSerializer_is_valid e st False (data request) = Inr w \<longrightarrow>
        (if user_role (user request) = SUPERVISOR
            \<or> att_user attendance = user_id (user request)
         then AttendanceView_put e st request pk =
                (Response
                   (Data (AttendanceSerializer_data e
                            (fst (AttendanceSerializer_update attendance w st))))
                   HTTP_200_OK,
                 snd (AttendanceSerializer_update attendance w st))
         else AttendanceView_put e st request pk =
                (Response (Error ''Only supervisors or the user can update attendance.'')
                   HTTP_401_UNAUTHORIZED, st))
        \<and> (status_code (fst (AttendanceView_put e st request pk)) = Some HTTP_200_OK) =
            (user_role (user request) = SUPERVISOR
             \<or> att_user attendance = user_id (user request)))"
proof (intro conjI impI)
  assume "TaskView_get_object st pk = Some task"
     and "TaskSerializer_is_valid e st False (data request) = Inr v"
  then show
    "if user_role (user request) = SUPERVISOR
          \<or> task_assigned_to task = Some (user_id (user request))
       then TaskView_put e st request pk =
              (Response (Data (TaskSerializer_data e (fst (TaskSerializer_update task v st))))
                 HTTP_200_OK,
               snd (TaskSerializer_update task v st))
       else TaskView_put e st request pk =
              (Response (Error ''Only supervisors or the assigned intern can update tasks.'')
                 HTTP_401_UNAUTHORIZED, st)"
    and
    "(status_code (fst (TaskView_put e st request pk)) = Some HTTP_200_OK) =
          (user_role (user request) = SUPERVISOR
           \<or> task_assigned_to task = Some (user_id (user request)))"
    by (auto simp: TaskView_put_def split: prod.splits)
next
  assume "AttendanceView_get_object st pk = Some attendance"
     and "AttendanceSerializer_is_valid e st False (data request) = Inr w"
  then show
    "if user_role (user request) = SUPERVISOR
            \<or> att_user attendance = user_id (user request)
         then AttendanceView_put e st request pk =
                (Response
                   (Data (AttendanceSerializer_data e
                            (fst (AttendanceSerializer_update attendance w st))))
                   HTTP_200_OK,
                 snd (AttendanceSerializer_update attendance w st))
         else AttendanceView_put e st request pk =
                (Response (Error ''Only supervisors or the user can update attendance.'')
                   HTTP_401_UNAUTHORIZED, st)"
    and
    "(status_code (fst (AttendanceView_put e st request pk)) = Some HTTP_200_OK) =
            (user_role (user request) = SUPERVISOR
             \<or> att_user attendance = user_id (user request))"
    by (auto simp: AttendanceView_put_def split: prod.splits)
qed

theorem generic_update_policy_witness:
  "TaskView_put sample_env db
     \<lparr>user = ian, data = [''title'' \<mapsto> JStr ''Report'', ''is_completed'' \<mapsto> JBool True]\<rparr> 1 =
     (Response (Data (TaskSerializer_data sample_env (report\<lparr>task_is_completed := True\<rparr>)))
        HTTP_200_OK,
      db\<lparr>Task_objects := [report\<lparr>task_is_completed := True\<rparr>, review]\<rparr>)
   \<and> TaskView_put sample_env db
     \<lparr>user = joe, data = [''title'' \<mapsto> JStr ''Report'', ''is_completed'' \<mapsto> JBool True]\<rparr> 1 =
     (Response (Error ''Only supervisors or the assigned intern can update tasks.'')
        HTTP_401_UNAUTHORIZED, db)
   \<and> AttendanceView_put sample_env db
     \<lparr>user = sue, data = [''user'' \<mapsto> JInt 2, ''status'' \<mapsto> JStr ''L'']\<rparr> 1 =
     (Response (Data (AttendanceSerializer_data sample_env (checkin\<lparr>att_status := ''L''\<rparr>)))
        HTTP_200_OK,
      db\<lparr>Attendance_objects := [checkin\<lparr>att_status := ''L''\<rparr>]\<rparr>)
   \<and> AttendanceView_put sample_env db
     \<lparr>user = joe, data = [''user'' \<mapsto> JInt 2, ''status'' \<mapsto> JStr ''L'']\<rparr> 1 =
     (Response (Error ''Only supervisors or the user can update attendance.'')
        HTTP_401_UNAUTHORIZED, db)"
proof -
  let ?d = "[''title'' \<mapsto> JStr ''Report'', ''is_completed'' \<mapsto> JBool True]"
  let ?c = "[''user'' \<mapsto> JInt 2, ''status'' \<mapsto> JStr ''L'']"
  let ?v = "\<lparr>v_title = Some ''Report'', v_description = None, v_due_date = None,
             v_is_completed = Some True, v_assigned_to = None, v_assigned_by = None,
             v_birth_date = None\<rparr>"
  let ?w = "\<lparr>v_user = Some 2, v_status = Some ''L'', v_check_out_time = None\<rparr>"
  have g: "TaskView_get_object db 1 = Some report"
    by (simp add: TaskView_get_object_def db_def report_def)
  have h: "AttendanceView_get_object db 1 = Some checkin"
    by (simp add: AttendanceView_get_object_def db_def checkin_def)
  have v: "TaskSerializer_is_valid sample_env db False ?d = Inr ?v"
    by (simp add: TaskSerializer_is_valid_def run_field_def run_field_null_def CharField_def
          sample_env_def Let_def)
  have w: "AttendanceSerializer_is_valid sample_env db False ?c = Inr ?w"
    by (simp add: AttendanceSerializer_is_valid_def run_field_def run_field_null_def
          PrimaryKeyRelatedField_def user_pks_def status_choices_def db_def sue_def ian_def
          joe_def Let_def)
  have tu: "TaskSerializer_update report ?v db =
      (report\<lparr>task_is_completed := True\<rparr>,
       db\<lparr>Task_objects := [report\<lparr>task_is_completed := True\<rparr>, review]\<rparr>)"
    by (simp add: TaskSerializer_update_def Task_save_def Let_def db_def report_def review_def)
  have au: "AttendanceSerializer_update checkin ?w db =
      (checkin\<lparr>att_status := ''L''\<rparr>, db\<lparr>Attendance_objects := [checkin\<lparr>att_status := ''L''\<rparr>]\<rparr>)"
    by (simp add: AttendanceSerializer_update_def Attendance_save_def Let_def db_def checkin_def)
  have roles: "user_role ian \<noteq> SUPERVISOR" "user_role joe \<noteq> SUPERVISOR"
      "user_role sue = SUPERVISOR" "user_id ian = 2" "user_id joe = 3"
      "task_assigned_to report = Some 2" "att_user checkin = 2"
    by (simp_all add: ian_def joe_def sue_def SUPERVISOR_def report_def checkin_def)
  show ?thesis
    using generic_update_policy
            [of db 1 report sample_env "\<lparr>user = ian, data = ?d\<rparr>" ?v checkin ?w]
          generic_update_policy
            [of db 1 report sample_env "\<lparr>user = joe, data = ?d\<rparr>" ?v checkin ?w]
          generic_update_policy
            [of db 1 report sample_env "\<lparr>user = sue, data = ?c\<rparr>" ?v checkin ?w]
          generic_update_policy
            [of db 1 report sample_env "\<lparr>user = joe, data = ?c\<rparr>" ?v checkin ?w]
    by (simp add: g h v w tu au roles)
qed

lemma task_put_blank_assignee_sample:
  "TaskView_put sample_env db
     \<lparr>user = ian, data = [''title'' \<mapsto> JStr ''Report'', ''assigned_to'' \<mapsto> JStr []]\<rparr> 1 =
     (Response (Data (TaskSerializer_data sample_env (report\<lparr>task_assigned_to := None\<rparr>)))
        HTTP_200_OK,
      db\<lparr>Task_objects := [report\<lparr>task_assigned_to := None\<rparr>, review]\<rparr>)
   \<and> TaskView_put sample_env db
     \<lparr>user = joe, data = [''title'' \<mapsto> JStr ''Report'', ''assigned_to'' \<mapsto> JStr []]\<rparr> 1 =
     (Response (Error ''Only supervisors or the assigned intern can update tasks.'')
        HTTP_401_UNAUTHORIZED, db)
   \<and> AttendanceView_put sample_env db
     \<lparr>user = ian, data = [''user'' \<mapsto> JStr []]\<rparr> 1 =
     (Response (Errors [''user'']) HTTP_400_BAD_REQUEST, db)"
  by (simp add: TaskView_put_def TaskView_get_object_def TaskSerializer_is_valid_def
        TaskSerializer_update_def Task_save_def AttendanceView_put_def
        AttendanceView_get_object_def AttendanceSerializer_is_valid_def
        run_field_def run_field_null_def CharField_def PrimaryKeyRelatedField_def user_pks_def
        sample_env_def db_def sue_def ian_def joe_def report_def review_def checkin_def
        SUPERVISOR_def Let_def)

text \<open>
  Claim C7. For a caller whose role is not supervisor, \<open>post\<close> of the user, task and
  attendance views, and \<open>delete\<close> of an existing record of each, answer 401 (the status
  the views give to a refused caller) and leave the database unchanged.
\<close>

theorem create_delete_forbidden:
  assumes "user_role (user request) \<noteq> SUPERVISOR"
  shows "UserProfileView_post e st request =
           (Response (Error ''Only supervisors can create profiles.'') HTTP_401_UNAUTHORIZED, st)
       \<and> TaskView_post e st request =
           (Response (Error ''Only supervisors can create tasks.'') HTTP_401_UNAUTHORIZED, st)
       \<and> AttendanceView_post e st request =
           (Response (Error ''Only supervisors can create attendance records.'')
              HTTP_401_UNAUTHORIZED, st)
       \<and> (UserProfileView_get_object st pk \<noteq> None \<longrightarrow>
            UserProfileView_delete st request pk =
              (Response (Error ''Only supervisors can delete profiles.'') HTTP_401_UNAUTHORIZED, st))
       \<and> (TaskView_get_object st pk \<noteq> None \<longrightarrow>
            TaskView_delete st request pk =
              (Response (Error ''Only supervisors can delete tasks.'') HTTP_401_UNAUTHORIZED, st))
       \<and> (AttendanceView_get_object st pk \<noteq> None \<longrightarrow>
            AttendanceView_delete st request pk =
              (Response (Error ''Only supervisors can delete attendance records.'')
                 HTTP_401_UNAUTHORIZED, st))"
  using assms
  by (auto simp: UserProfileView_post_def TaskView_post_def AttendanceView_post_def
        UserProfileView_delete_def TaskView_delete_def AttendanceView_delete_def)

theorem create_delete_forbidden_witness:
  "UserProfileView_post sample_env db
     \<lparr>user = ian, data = [''username'' \<mapsto> JStr ''amy'', ''email'' \<mapsto> JStr ''amy@example.org'',
                           ''password'' \<mapsto> JStr ''pw'', ''role'' \<mapsto> JStr ''Supervisor'']\<rparr> =
     (Response (Error ''Only supervisors can create profiles.'') HTTP_401_UNAUTHORIZED, db)
   \<and> TaskView_post sample_env db \<lparr>user = ian, data = [''title'' \<mapsto> JStr ''Slides'']\<rparr> =
     (Response (Error ''Only supervisors can create tasks.'') HTTP_401_UNAUTHORIZED, db)
   \<and> AttendanceView_post sample_env db \<lparr>user = ian, data = [''user'' \<mapsto> JInt 2]\<rparr> =
     (Response (Error ''Only supervisors can create attendance records.'')
        HTTP_401_UNAUTHORIZED, db)
   \<and> UserProfileView_delete db \<lparr>user = ian, data = Map.empty\<rparr> 1 =
     (Response (Error ''Only supervisors can delete profiles.'') HTTP_401_UNAUTHORIZED, db)
   \<and> TaskView_delete db \<lparr>user = ian, data = Map.empty\<rparr> 1 =
     (Response (Error ''Only supervisors can delete tasks.'') HTTP_401_UNAUTHORIZED, db)
   \<and> AttendanceView_delete db \<lparr>user = ian, data = Map.empty\<rparr> 1 =
     (Response (Error ''Only supervisors can delete attendance records.'')
        HTTP_401_UNAUTHORIZED, db)"
proof -
  have r: "\<And>d. user_role (user \<lparr>user = ian, data = d\<rparr>) \<noteq> SUPERVISOR"
    by (simp add: ian_def SUPERVISOR_def)
  have g: "UserProfileView_get_object db 1 \<noteq> None" "TaskView_get_object db 1 \<noteq> None"
      "AttendanceView_get_object db 1 \<noteq> None"
    by (simp_all add: UserProfileView_get_object_def TaskView_get_object_def
          AttendanceView_get_object_def db_def sue_def report_def checkin_def)
  show ?thesis
    using create_delete_forbidden [OF r, of sample_env db _ 1] g
    by simp
qed

text \<open>
  Claim C8. For each of the three views, \<open>put\<close> with a key that has no record answers 404
  whatever the caller's role; with a key that has one it never answers 404, so the answer
  tells every caller whether the record exists. With a record, a caller the policy
  refuses gets 401 whatever the payload; an accepted caller gets 400, and the database is
  unchanged, when the serializer refuses the payload, and 200, with the update saved, when
  it accepts it.
\<close>

theorem update_order:
  "(case UserProfileView_get_object st pk of
      None \<Rightarrow>
        UserProfileView_put e st request pk =
          (Response (Error ''UserProfile not found.'') HTTP_404_NOT_FOUND, st)
    | Some profile \<Rightarrow>
        status_code (fst (UserProfileView_put e st request pk)) \<noteq> Some HTTP_404_NOT_FOUND
        \<and> (if user_role (user request) \<noteq> SUPERVISOR then
             UserProfileView_put e st request pk =
               (Response (Error ''Only supervisors can update profiles.'')
                  HTTP_401_UNAUTHORIZED, st)
           else
             case UserProfileSerializer_is_valid e st (Some profile) False (data request) of
               Inl errors \<Rightarrow>
                 UserProfileView_put e st request pk =
                   (Response (Errors errors) HTTP_400_BAD_REQUEST, st)
             | Inr v \<Rightarrow>
                 UserProfileView_put e st request pk =
                   (Response
                      (Data (UserProfileSerializer_data e
                               (fst (UserProfileSerializer_update profile v st))))
                      HTTP_200_OK,
                    snd (UserProfileSerializer_update profile v st))))
   \<and> (case TaskView_get_object st pk of
        None \<Rightarrow>
          TaskView_put e st request pk =
            (Response (Error ''Task not found.'') HTTP_404_NOT_FOUND, st)
      | Some task \<Rightarrow>
          status_code (fst (TaskView_put e st request pk)) \<noteq> Some HTTP_404_NOT_FOUND
          \<and> (if user_role (user request) \<noteq> SUPERVISOR
                 \<and> task_assigned_to task \<noteq> Some (user_id (user request)) then
               TaskView_put e st request pk =
                 (Response (Error ''Only supervisors or the assigned intern can update tasks.'')
                    HTTP_401_UNAUTHORIZED, st)
             else
               case TaskSerializer_is_valid e st False (data request) of
                 Inl errors \<Rightarrow>
                   TaskView_put e st request pk =
                     (Response (Errors errors) HTTP_400_BAD_REQUEST, st)
               | Inr v \<Rightarrow>
                   TaskView_put e st request pk =
                     (Response (Data (TaskSerializer_data e (fst (TaskSerializer_update task v st))))
                        HTTP_200_OK,
                      snd (TaskSerializer_update task v st))))
   \<and> (case AttendanceView_get_object st pk of
        None \<Rightarrow>
          AttendanceView_put e st request pk =
            (Response (Error ''Attendance record not found.'') HTTP_404_NOT_FOUND, st)
      | Some attendance \<Rightarrow>
          status_code (fst (AttendanceView_put e st request pk)) \<noteq> Some HTTP_404_NOT_FOUND
          \<and> (if user_role (user request) \<noteq> SUPERVISOR
                 \<and> att_user attendance \<noteq> user_id (user request) then
               AttendanceView_put e st request pk =
                 (Response (Error ''Only supervisors or the user can update attendance.'')
                    HTTP_401_UNAUTHORIZED, st)
             else
               case AttendanceSerializer_is_valid e st False (data request) of
                 Inl errors \<Rightarrow>
                   AttendanceView_put e st request pk =
                     (Response (Errors errors) HTTP_400_BAD_REQUEST, st)
               | Inr v \<Rightarrow>
                   AttendanceView_put e st request pk =
                     (Response
                        (Data (AttendanceSerializer_data e
                                 (fst (AttendanceSerializer_update attendance v st))))
                        HTTP_200_OK,
                      snd (AttendanceSerializer_update attendance v st))))"
proof (intro conjI)
  show "case UserProfileView_get_object st pk of
      None \<Rightarrow>
        UserProfileView_put e st request pk =
          (Response (Error ''UserProfile not found.'') HTTP_404_NOT_FOUND, st)
    | Some profile \<Rightarrow>
        status_code (fst (UserProfileView_put e st request pk)) \<noteq> Some HTTP_404_NOT_FOUND
        \<and> (if user_role (user request) \<noteq> SUPERVISOR then
             UserProfileView_put e st request pk =
               (Response (Error ''Only supervisors can update profiles.'')
                  HTTP_401_UNAUTHORIZED, st)
           else
             case UserProfileSerializer_is_valid e st (Some profile) False (data request) of
               Inl errors \<Rightarrow>
                 UserProfileView_put e st request pk =
                   (Response (Errors errors) HTTP_400_BAD_REQUEST, st)
             | Inr v \<Rightarrow>
                 UserProfileView_put e st request pk =
                   (Response
                      (Data (UserProfileSerializer_data e
                               (fst (UserProfileSerializer_update profile v st))))
                      HTTP_200_OK,
                    snd (UserProfileSerializer_update profile v st)))"
    by (simp add: UserProfileView_put_def split: option.splits sum.splits prod.splits)
next
  show "case TaskView_get_object st pk of
        None \<Rightarrow>
          TaskView_put e st request pk =
            (Response (Error ''Task not found.'') HTTP_404_NOT_FOUND, st)
      | Some task \<Rightarrow>
          status_code (fst (TaskView_put e st request pk)) \<noteq> Some HTTP_404_NOT_FOUND
          \<and> (if user_role (user request) \<noteq> SUPERVISOR
                 \<and> task_assigned_to task \<noteq> Some (user_id (user request)) then
               TaskView_put e st request pk =
                 (Response (Error ''Only supervisors or the assigned intern can update tasks.'')
                    HTTP_401_UNAUTHORIZED, st)
             else
               case TaskSerializer_is_valid e st False (data request) of
                 Inl errors \<Rightarrow>
                   TaskView_put e st request pk =
                     (Response (Errors errors) HTTP_400_BAD_REQUEST, st)
               | Inr v \<Rightarrow>
                   TaskView_put e st request pk =
                     (Response (Data (TaskSerializer_data e (fst (TaskSerializer_update task v st))))
                        HTTP_200_OK,
                      snd (TaskSerializer_update task v st)))"
    by (simp add: TaskView_put_def split: option.splits sum.splits prod.splits)
next
  show "case AttendanceView_get_object st pk of
        None \<Rightarrow>
          AttendanceView_put e st request pk =
            (Response (Error ''Attendance record not found.'') HTTP_404_NOT_FOUND, st)
      | Some attendance \<Rightarrow>
          status_code (fst (AttendanceView_put e st request pk)) \<noteq> Some HTTP_404_NOT_FOUND
          \<and> (if user_role (user request) \<noteq> SUPERVISOR
                 \<and> att_user attendance \<noteq> user_id (user request) then
               AttendanceView_put e st request pk =
                 (Response (Error ''Only supervisors or the user can update attendance.'')
                    HTTP_401_UNAUTHORIZED, st)
             else
               case AttendanceSerializer_is_valid e st False (data request) of
                 Inl errors \<Rightarrow>
                   AttendanceView_put e st request pk =
                     (Response (Errors errors) HTTP_400_BAD_REQUEST, st)
               | Inr v \<Rightarrow>
                   AttendanceView_put e st request pk =
                     (Response
                        (Data (AttendanceSerializer_data e
                                 (fst (AttendanceSerializer_update attendance v st))))
                        HTTP_200_OK,
                      snd (AttendanceSerializer_update attendance v st)))"
    by (simp add: AttendanceView_put_def split: option.splits sum.splits prod.splits)
qed

theorem update_order_witness:
  "TaskView_put sample_env db \<lparr>user = joe, data = Map.empty\<rparr> 9 =
     (Response (Error ''Task not found.'') HTTP_404_NOT_FOUND, db)
   \<and> TaskView_put sample_env db \<lparr>user = joe, data = Map.empty\<rparr> 1 =
     (Response (Error ''Only supervisors or the assigned intern can update tasks.'')
        HTTP_401_UNAUTHORIZED, db)
   \<and> TaskView_put sample_env db \<lparr>user = ian, data = Map.empty\<rparr> 1 =
     (Response (Errors [''title'']) HTTP_400_BAD_REQUEST, db)
   \<and> AttendanceView_put sample_env db \<lparr>user = joe, data = Map.empty\<rparr> 9 =
     (Response (Error ''Attendance record not found.'') HTTP_404_NOT_FOUND, db)
   \<and> AttendanceView_put sample_env db \<lparr>user = joe, data = Map.empty\<rparr> 1 =
     (Response (Error ''Only supervisors or the user can update attendance.'')
        HTTP_401_UNAUTHORIZED, db)
   \<and> UserProfileView_put sample_env db \<lparr>user = joe, data = Map.empty\<rparr> 9 =
     (Response (Error ''UserProfile not found.'') HTTP_404_NOT_FOUND, db)
   \<and> UserProfileView_put sample_env db \<lparr>user = joe, data = Map.empty\<rparr> 1 =
     (Response (Error ''Only supervisors can update profiles.'') HTTP_401_UNAUTHORIZED, db)
   \<and> UserProfileView_put sample_env db \<lparr>user = sue, data = [''role'' \<mapsto> JStr ''Intern'']\<rparr> 2 =
     (Response (Errors [''password'', ''username'', ''email'']) HTTP_400_BAD_REQUEST, db)"
proof -
  have g: "TaskView_get_object db 9 = None" "TaskView_get_object db 1 = Some report"
      "AttendanceView_get_object db 9 = None" "AttendanceView_get_object db 1 = Some checkin"
      "UserProfileView_get_object db 9 = None" "UserProfileView_get_object db 1 = Some sue"
      "UserProfileView_get_object db 2 = Some ian"
    by (simp_all add: UserProfileView_get_object_def TaskView_get_object_def
          AttendanceView_get_object_def db_def sue_def ian_def joe_def report_def review_def
          checkin_def)
  have roles: "user_role ian \<noteq> SUPERVISOR" "user_role joe \<noteq> SUPERVISOR"
      "user_role sue = SUPERVISOR" "user_id ian = 2" "user_id joe = 3"
      "task_assigned_to report = Some 2" "att_user checkin = 2"
    by (simp_all add: ian_def joe_def sue_def SUPERVISOR_def report_def checkin_def)
  have v: "TaskSerializer_is_valid sample_env db False Map.empty = Inl [''title'']"
    by (simp add: TaskSerializer_is_valid_def run_field_def run_field_null_def Let_def)
  have u: "UserProfileSerializer_is_valid sample_env db (Some ian) False
             [''role'' \<mapsto> JStr ''Intern''] = Inl [''password'', ''username'', ''email'']"
    by (simp add: UserProfileSerializer_is_valid_def run_field_def run_field_null_def
          Types_choices_def INTERN_def Let_def)
  show ?thesis
    using update_order [where st = db and pk = 9 and e = sample_env
              and request = "\<lparr>user = joe, data = Map.empty\<rparr>"]
          update_order [where st = db and pk = 1 and e = sample_env
              and request = "\<lparr>user = joe, data = Map.empty\<rparr>"]
          update_order [where st = db and pk = 1 and e = sample_env
              and request = "\<lparr>user = ian, data = Map.empty\<rparr>"]
          update_order [where st = db and pk = 2 and e = sample_env
              and request = "\<lparr>user = sue, data = [''role'' \<mapsto> JStr ''Intern'']\<rparr>"]
    by (simp add: g roles v u)
qed

lemma data_without_password:
  "UserProfileSerializer_data e (u\<lparr>user_password := p\<rparr>) = UserProfileSerializer_data e u"
  by (simp add: UserProfileSerializer_data_def UserProfile_fields_def write_only_def)

lemma find_map_password:
  "find (\<lambda>u. user_id u = k) (map (\<lambda>u. u\<lparr>user_password := f u\<rparr>) us) =
     map_option (\<lambda>u. u\<lparr>user_password := f u\<rparr>) (find (\<lambda>u. user_id u = k) us)"
  by (induction us) auto

text \<open>
  Claim C9. What \<open>UserProfileSerializer\<close> writes for a user has no \<open>password\<close> key and
  does not depend on the password: changing the password of a user changes nothing in
  it, and changing the passwords of all the users in the database changes no response
  of \<open>UserProfileView.get\<close>, list or single record.
\<close>

theorem password_never_serialized:
  "''password'' \<notin> fst ` set (UserProfileSerializer_data e u)
   \<and> UserProfileSerializer_data e (u\<lparr>user_password := p\<rparr>) = UserProfileSerializer_data e u
   \<and> fst (UserProfileView_get e
            (st\<lparr>UserProfile_objects :=
                  map (\<lambda>u. u\<lparr>user_password := f u\<rparr>) (UserProfile_objects st)\<rparr>) request pk)
       = fst (UserProfileView_get e st request pk)"
proof (intro conjI)
  show "''password'' \<notin> fst ` set (UserProfileSerializer_data e u)"
    by (simp add: UserProfileSerializer_data_def UserProfile_fields_def write_only_def)
next
  show "UserProfileSerializer_data e (u\<lparr>user_password := p\<rparr>) = UserProfileSerializer_data e u"
    by (rule data_without_password)
next
  show "fst (UserProfileView_get e
            (st\<lparr>UserProfile_objects :=
                  map (\<lambda>u. u\<lparr>user_password := f u\<rparr>) (UserProfile_objects st)\<rparr>) request pk)
       = fst (UserProfileView_get e st request pk)"
    by (simp add: UserProfileView_get_def UserProfileView_get_object_def find_map_password
          data_without_password comp_def split: option.splits)
qed

end
